theory Spec2Isabelle
  imports Main "HOL-Library.AList" "HOL-Library.Word"
begin

text \<open>
  A model of \<^verbatim>\<open>preprocessing_profiling/plot.py\<close>: the rendering wrappers, which turn a
  figure into a \<^verbatim>\<open>data:\<close> string, and \<^verbatim>\<open>generate_report_visualizations\<close>, which
  fills a report with the missingness matrixes and the precision-recall curves of its
  baseline and of every strategy. What pandas does to a frame and what the report holds
  are computed here; what matplotlib, missingno, yellowbrick and sklearn draw is a
  parameter. The definitions come first, the properties after them.
\<close>

section \<open>Errors\<close>

text \<open>
  The exceptions of \<^verbatim>\<open>plot.py\<close> as values. \<open>KeyError\<close> and \<open>IndexError\<close> are raised
  by the dictionary and \<^verbatim>\<open>iloc\<close> accesses of the module itself, \<open>ValueError\<close> by
  a column assignment that cannot be aligned, \<open>TypeError\<close> is the one class that
  \<^verbatim>\<open>_plot_histogram\<close> catches, and \<open>LibraryError\<close> stands for any other exception an
  external library call (matplotlib, missingno, yellowbrick, sklearn) may raise.
\<close>

datatype py_error =
    KeyError string
  | IndexError
  | ValueError
  | TypeError
  | LibraryError string

section \<open>Datasets\<close>

text \<open>
  A pandas \<^verbatim>\<open>DataFrame\<close>: the column names and the rows in their order. A row
  carries its index label and one cell per column; a cell is \<open>None\<close> where the value is
  missing (NaN). The frames the module handles have one cell per column in every row.
\<close>

type_synonym 'v cell = "'v option"

type_synonym 'v row = "nat \<times> 'v cell list"

record 'v dataframe =
  columns :: "string list"
  rows :: "'v row list"

text \<open>A \<^verbatim>\<open>Series\<close>: index labels with their values.\<close>

type_synonym 'v series = "(nat \<times> 'v cell) list"

text \<open>
  \<^verbatim>\<open>df.iloc[:, -k]\<close> for \<open>k = 1, 2\<close>: the \<open>k\<close>-th column from the right, an
  \<open>IndexError\<close> when the frame has fewer than \<open>k\<close> columns.
\<close>

definition cell_from_right :: "nat \<Rightarrow> 'v row \<Rightarrow> 'v cell" where
  "cell_from_right k r = rev (snd r) ! (k - 1)"

definition iloc_column :: "'v dataframe \<Rightarrow> nat \<Rightarrow> py_error + 'v cell list" where
  "iloc_column df k =
     (if length (columns df) < k then Inl IndexError
      else Inr (map (cell_from_right k) (rows df)))"

text \<open>
  By the positional contract of the module the last column is the predicted label and
  the one before it the actual label.
\<close>

definition predicted :: "'v row \<Rightarrow> 'v cell" where
  "predicted r = cell_from_right 1 r"

definition actual :: "'v row \<Rightarrow> 'v cell" where
  "actual r = cell_from_right 2 r"

text \<open>
  Elementwise comparison as pandas and numpy do it: a missing value is different from
  everything, itself included.
\<close>

definition cell_eq :: "'v cell \<Rightarrow> 'v cell \<Rightarrow> bool" where
  "cell_eq a b = (case (a, b) of (Some x, Some y) \<Rightarrow> x = y | _ \<Rightarrow> False)"

definition cell_ne :: "'v cell \<Rightarrow> 'v cell \<Rightarrow> bool" where
  "cell_ne a b = (\<not> cell_eq a b)"

definition series_ne :: "'v cell list \<Rightarrow> 'v cell list \<Rightarrow> bool list" where
  "series_ne xs ys = map2 cell_ne xs ys"

definition series_eq_scalar :: "'v cell list \<Rightarrow> 'v cell \<Rightarrow> bool list" where
  "series_eq_scalar xs v = map (\<lambda>x. cell_eq x v) xs"

definition mask_and :: "bool list \<Rightarrow> bool list \<Rightarrow> bool list" where
  "mask_and ms ns = map2 (\<and>) ms ns"

definition mask_not :: "bool list \<Rightarrow> bool list" where
  "mask_not ms = map Not ms"

text \<open>\<^verbatim>\<open>df[mask]\<close>: the rows whose mask entry is true, in their order.\<close>

definition getitem_mask :: "'v dataframe \<Rightarrow> bool list \<Rightarrow> 'v dataframe" where
  "getitem_mask df ms = df\<lparr>rows := map fst (filter snd (zip (rows df) ms))\<rparr>"

text \<open>\<^verbatim>\<open>a.append(b)\<close>: a new frame, the rows of \<open>a\<close> followed by those of \<open>b\<close>.\<close>

definition append_frame :: "'v dataframe \<Rightarrow> 'v dataframe \<Rightarrow> 'v dataframe" where
  "append_frame a b = a\<lparr>rows := rows a @ rows b\<rparr>"

text \<open>
  \<^verbatim>\<open>.iloc[:, -2:]\<close> followed by \<^verbatim>\<open>np.array\<close>: the last two cells of every row, as
  pairs (a slice never raises; the frames it is applied to have two columns or more).
\<close>

definition iloc_last_two :: "'v dataframe \<Rightarrow> ('v cell \<times> 'v cell) list" where
  "iloc_last_two df = map (\<lambda>r. (actual r, predicted r)) (rows df)"

text \<open>
  \<^verbatim>\<open>drop_duplicates()\<close> keeps the first occurrence of every value and drops the later
  ones; two missing values count as equal there. \<open>seen\<close> holds the values met so far.
\<close>

fun drop_duplicates_from :: "'a list \<Rightarrow> 'a list \<Rightarrow> 'a list" where
  "drop_duplicates_from seen [] = []"
| "drop_duplicates_from seen (x # xs) =
     (if x \<in> set seen then drop_duplicates_from seen xs
      else x # drop_duplicates_from (x # seen) xs)"

definition drop_duplicates :: "'a list \<Rightarrow> 'a list" where
  "drop_duplicates xs = drop_duplicates_from [] xs"

subsection \<open>Error pairs (line 280 and line 289)\<close>

text \<open>
  \<^verbatim>\<open>np.array(df[df.iloc[:, -1] != df.iloc[:, -2]].iloc[:, -2:].drop_duplicates())\<close>
\<close>

definition combinations :: "'v dataframe \<Rightarrow> py_error + ('v cell \<times> 'v cell) list" where
  "combinations df =
     (case iloc_column df 1 of
        Inl e \<Rightarrow> Inl e
      | Inr last_col \<Rightarrow>
          (case iloc_column df 2 of
             Inl e \<Rightarrow> Inl e
           | Inr before_last \<Rightarrow>
               Inr (drop_duplicates
                      (iloc_last_two (getitem_mask df (series_ne last_col before_last))))))"

subsection \<open>Reordering for one pair (line 283 and line 292)\<close>

text \<open>
  \<^verbatim>\<open>(df.iloc[:, -2] == pair[0]) & (df.iloc[:, -1] == pair[-1])\<close>
\<close>

definition pair_mask :: "'v dataframe \<Rightarrow> 'v cell \<times> 'v cell \<Rightarrow> py_error + bool list" where
  "pair_mask df pair =
     (case iloc_column df 2 of
        Inl e \<Rightarrow> Inl e
      | Inr before_last \<Rightarrow>
          (case iloc_column df 1 of
             Inl e \<Rightarrow> Inl e
           | Inr last_col \<Rightarrow>
               Inr (mask_and (series_eq_scalar before_last (fst pair))
                             (series_eq_scalar last_col (snd pair)))))"

text \<open>
  \<^verbatim>\<open>df[m].append(df[~m])\<close> with \<open>m\<close> the mask of the pair; the mask expression is
  evaluated twice in the source, with the same result.
\<close>

definition reorder :: "'v dataframe \<Rightarrow> 'v cell \<times> 'v cell \<Rightarrow> py_error + 'v dataframe" where
  "reorder df pair =
     (case pair_mask df pair of
        Inl e \<Rightarrow> Inl e
      | Inr m \<Rightarrow> Inr (append_frame (getitem_mask df m) (getitem_mask df (mask_not m))))"


subsection \<open>Column access by name (line 287)\<close>

fun column_position :: "string list \<Rightarrow> string \<Rightarrow> nat option" where
  "column_position [] c = None"
| "column_position (x # xs) c =
     (if x = c then Some 0 else map_option Suc (column_position xs c))"

text \<open>\<^verbatim>\<open>df[c]\<close>: the column named \<open>c\<close> as a series, a \<open>KeyError\<close> when there is none.\<close>

definition getitem_column :: "'v dataframe \<Rightarrow> string \<Rightarrow> py_error + 'v series" where
  "getitem_column df c =
     (case column_position (columns df) c of
        None \<Rightarrow> Inl (KeyError c)
      | Some j \<Rightarrow> Inr (map (\<lambda>r. (fst r, snd r ! j)) (rows df)))"

text \<open>
  The values a series contributes to a frame with the index labels \<open>labels\<close>: taken as
  they are when the two indexes are equal, looked up by label (missing where the series
  has none) when the labels of the series are unique, and a \<open>ValueError\<close> otherwise.
\<close>

definition align :: "nat list \<Rightarrow> 'v series \<Rightarrow> py_error + 'v cell list" where
  "align labels ser =
     (if map fst ser = labels then Inr (map snd ser)
      else if distinct (map fst ser)
      then Inr (map (\<lambda>l. case map_of ser l of None \<Rightarrow> None | Some v \<Rightarrow> v) labels)
      else Inl ValueError)"

text \<open>
  \<^verbatim>\<open>df[c] = ser\<close>: a frame without rows first takes the index of the series, with
  every cell missing; then the aligned values replace the column \<open>c\<close>, or become a new
  last column when the frame has no column of that name.
\<close>

definition setitem_column ::
  "'v dataframe \<Rightarrow> string \<Rightarrow> 'v series \<Rightarrow> py_error + 'v dataframe" where
  "setitem_column df c ser =
     (let base = (if rows df = []
                  then map (\<lambda>e. (fst e, replicate (length (columns df)) None)) ser
                  else rows df)
      in case align (map fst base) ser of
           Inl e \<Rightarrow> Inl e
         | Inr vs \<Rightarrow>
             (case column_position (columns df) c of
                Some j \<Rightarrow> Inr (df\<lparr>rows := map2 (\<lambda>r v. (fst r, (snd r)[j := v])) base vs\<rparr>)
              | None \<Rightarrow>
                  Inr (df\<lparr>columns := columns df @ [c],
                          rows := map2 (\<lambda>r v. (fst r, snd r @ [v])) base vs\<rparr>)))"

section \<open>Image artifacts\<close>

text \<open>
  Every wrapper ends with
  \<^verbatim>\<open>'data:image/png;base64,' + quote(base64.b64encode(imgdata.getvalue()))\<close>.
  \<open>b64encode\<close> is the standard base64 encoding of a byte string and \<open>quote\<close> the
  percent-encoding of \<^verbatim>\<open>urllib\<close> with its default safe character \<^verbatim>\<open>/\<close>.
\<close>

definition b64_alphabet :: string where
  "b64_alphabet = ''ABCDEFGHIJKLMNOPQRSTUVWXYZabcdefghijklmnopqrstuvwxyz0123456789+/''"

definition b64_char :: "nat \<Rightarrow> char" where
  "b64_char i = b64_alphabet ! i"

fun b64encode :: "8 word list \<Rightarrow> string" where
  "b64encode [] = []"
| "b64encode [a] =
     [b64_char (unat a div 4), b64_char (unat a mod 4 * 16), CHR ''='', CHR ''='']"
| "b64encode [a, b] =
     [b64_char (unat a div 4), b64_char (unat a mod 4 * 16 + unat b div 16),
      b64_char (unat b mod 16 * 4), CHR ''='']"
| "b64encode (a # b # c # bs) =
     [b64_char (unat a div 4), b64_char (unat a mod 4 * 16 + unat b div 16),
      b64_char (unat b mod 16 * 4 + unat c div 64), b64_char (unat c mod 64)]
     @ b64encode bs"

definition always_safe :: string where
  "always_safe = ''ABCDEFGHIJKLMNOPQRSTUVWXYZabcdefghijklmnopqrstuvwxyz0123456789_.-~''"

definition hex_digit :: "nat \<Rightarrow> char" where
  "hex_digit n = ''0123456789ABCDEF'' ! n"

definition quote_char :: "char \<Rightarrow> string" where
  "quote_char c =
     (if c \<in> set always_safe \<or> c = CHR ''/'' then [c]
      else [CHR ''%'', hex_digit (of_char c div 16), hex_digit (of_char c mod 16)])"

definition quote :: "string \<Rightarrow> string" where
  "quote s = concat (map quote_char s)"

definition to_img :: "8 word list \<Rightarrow> string" where
  "to_img imgdata = ''data:image/png;base64,'' @ quote (b64encode imgdata)"

subsection \<open>The wire format\<close>

text \<open>
  What a reader of an artifact checks: the header, a payload of URL-safe characters
  only, and, once the percent escapes are decoded, a base64 text (groups of four
  symbols of the alphabet, the last group padded with at most two \<^verbatim>\<open>=\<close>).
\<close>

definition hex_value :: "char \<Rightarrow> nat" where
  "hex_value c =
     (if of_char c < (58::nat) then of_char c - 48 else of_char c - 55)"

fun unquote :: "string \<Rightarrow> string" where
  "unquote [] = []"
| "unquote (c # cs) =
     (if c = CHR ''%'' then
        (case cs of
           h # l # rest \<Rightarrow> char_of (hex_value h * 16 + hex_value l) # unquote rest
         | _ \<Rightarrow> c # cs)
      else c # unquote cs)"

definition url_safe :: "string \<Rightarrow> bool" where
  "url_safe s = list_all (\<lambda>c. c \<in> set always_safe \<or> c = CHR ''/'' \<or> c = CHR ''%'') s"

definition is_base64 :: "string \<Rightarrow> bool" where
  "is_base64 s =
     (length s mod 4 = 0 \<and>
      list_all (\<lambda>c. c \<in> set b64_alphabet) (takeWhile (\<lambda>c. c \<noteq> CHR ''='') s) \<and>
      dropWhile (\<lambda>c. c \<noteq> CHR ''='') s \<in> {[], ''='', ''==''})"

definition image_artifact :: "string \<Rightarrow> bool" where
  "image_artifact s =
     (take 22 s = ''data:image/png;base64,'' \<and>
      url_safe (drop 22 s) \<and> is_base64 (unquote (drop 22 s)))"

section \<open>The report\<close>

text \<open>
  The report is a nested dictionary. A frame is held by reference: the report stores
  the address of the frame in the store of the state below, so that an alias and a copy
  are different things, as in the source.
\<close>

record 'd split_data =
  x_train :: 'd
  y_train :: 'd
  x_test :: 'd
  y_test :: 'd

text \<open>One entry of \<^verbatim>\<open>prediction_matrixes\<close>: \<^verbatim>\<open>{"name": ..., "image": ...}\<close>.\<close>

record matrix =
  m_name :: string
  m_image :: string

text \<open>
  A result block. A key that a dictionary may lack is an optional field: \<open>split\<close> is
  removed by the pipeline, which adds \<open>prediction_matrixes\<close> and
  \<open>precision_recall_curve\<close>.
\<close>

record 'd block =
  result :: nat
  split :: "'d split_data option"
  prediction_matrixes :: "matrix list option"
  precision_recall_curve :: "string option"

text \<open>
  \<open>strategy_classifications\<close> is a dictionary: its entries in iteration order, with
  distinct keys.
\<close>

record 'd report =
  dataframe_modified :: nat
  dataframe_test :: nat
  baseline :: "'d block"
  strategy_classifications :: "(string \<times> 'd block) list"
  report_missing_matrix :: "string option"

datatype target = Baseline | Strategy string

definition lookup_block :: "target \<Rightarrow> 'd report \<Rightarrow> py_error + 'd block" where
  "lookup_block t r =
     (case t of
        Baseline \<Rightarrow> Inr (baseline r)
      | Strategy k \<Rightarrow>
          (case map_of (strategy_classifications r) k of
             None \<Rightarrow> Inl (KeyError k)
           | Some b \<Rightarrow> Inr b))"

definition update_block :: "target \<Rightarrow> ('d block \<Rightarrow> 'd block) \<Rightarrow> 'd report \<Rightarrow> 'd report" where
  "update_block t f r =
     (case t of
        Baseline \<Rightarrow> r\<lparr>baseline := f (baseline r)\<rparr>
      | Strategy k \<Rightarrow>
          r\<lparr>strategy_classifications := AList.map_entry k f (strategy_classifications r)\<rparr>)"

section \<open>The libraries\<close>

text \<open>
  The calls the module makes into matplotlib, missingno, yellowbrick and sklearn, in the
  order it makes them. The state records every call, so that what the module asks of
  the libraries, and in which order, can be stated.
\<close>

datatype 'v call =
    StyleUse string
  | MsnoMatrix "'v dataframe" bool
  | MsnoBar "'v dataframe"
  | MsnoHeatmap "'v dataframe"
  | MsnoDendrogram "'v dataframe"
  | Savefig
  | CloseFigure
  | NewPrecisionRecallCurve
  | Fit
  | Score
  | XTicks
  | Poof
  | Finalize
  | PltClose
  | GetVartype
  | NewSubplot
  | Hist
  | SeriesPlot
  | SubplotsAdjust
  | MiniTicks
  | CorrelationImage

text \<open>
  What the libraries answer. Each is a function of its arguments that returns a value or
  raises; \<open>'p\<close> is a plot object (an axes or a visualizer), \<open>'d\<close> the data the module
  only passes on (a series, a part of a split, a correlation matrix). \<open>str_of\<close> is
  Python's \<^verbatim>\<open>str\<close> on a label and \<open>mplstyle\<close> the path that \<^verbatim>\<open>resource_filename\<close>
  gives. The flag of \<open>msno_matrix\<close> says whether \<^verbatim>\<open>predictions = True\<close> is passed;
  the flag of \<open>new_subplot\<close>, \<open>series_plot\<close> and \<open>subplots_adjust\<close> tells the small
  histogram from the normal one (they differ in sizes and margins only). Two things are
  taken for granted of the libraries: a call does not change a frame it is given, and its
  answer depends on its arguments only, not on the calls made before it or on the style
  in force.
\<close>

record ('v, 'd, 'p) externals =
  str_of :: "'v \<Rightarrow> string"
  mplstyle :: string
  style_use :: "string \<Rightarrow> py_error + unit"
  msno_matrix :: "'v dataframe \<Rightarrow> bool \<Rightarrow> py_error + 'p"
  msno_bar :: "'v dataframe \<Rightarrow> py_error + 'p"
  msno_heatmap :: "'v dataframe \<Rightarrow> py_error + 'p"
  msno_dendrogram :: "'v dataframe \<Rightarrow> py_error + 'p"
  savefig :: "'p \<Rightarrow> py_error + 8 word list"
  close_figure :: "'p \<Rightarrow> py_error + unit"
  new_precision_recall_curve :: "'d \<Rightarrow> py_error + 'p"
  fit :: "'p \<Rightarrow> 'd \<Rightarrow> 'd \<Rightarrow> py_error + 'p"
  score :: "'p \<Rightarrow> 'd \<Rightarrow> 'd \<Rightarrow> py_error + 'p"
  xticks :: "py_error + unit"
  poof :: "'p \<Rightarrow> py_error + 8 word list"
  finalize :: "'p \<Rightarrow> py_error + unit"
  plt_close :: "py_error + unit"
  get_vartype_is_date :: "'d \<Rightarrow> py_error + bool"
  new_subplot :: "bool \<Rightarrow> py_error + 'p"
  hist :: "'p \<Rightarrow> 'd \<Rightarrow> py_error + unit"
  series_plot :: "'d \<Rightarrow> bool \<Rightarrow> py_error + 'p"
  subplots_adjust :: "'p \<Rightarrow> bool \<Rightarrow> py_error + unit"
  mini_ticks :: "'p \<Rightarrow> py_error + unit"
  correlation_image :: "'d \<Rightarrow> string \<Rightarrow> py_error + 'p"

section \<open>State and control flow\<close>

text \<open>
  The state the module works on: the store of frames (every address below
  \<open>next_frame\<close> is in use), the calls made so far, and the report, which the module
  updates in place. A statement of the source is a function from the state to a result
  (\<open>Inl\<close> an exception, \<open>Inr\<close> a value) and the state it leaves, so that what an
  exception leaves behind is part of the model.
\<close>

record ('v, 'd) state =
  frames :: "nat \<Rightarrow> 'v dataframe"
  next_frame :: nat
  calls :: "'v call list"
  report :: "'d report"

type_synonym ('a, 'v, 'd) action = "('v, 'd) state \<Rightarrow> (py_error + 'a) \<times> ('v, 'd) state"

definition succeed :: "'a \<Rightarrow> ('a, 'v, 'd) action" where
  "succeed x s = (Inr x, s)"

definition lift :: "py_error + 'a \<Rightarrow> ('a, 'v, 'd) action" where
  "lift r s = (r, s)"

definition then_do :: "('a, 'v, 'd) action \<Rightarrow> ('a \<Rightarrow> ('b, 'v, 'd) action) \<Rightarrow> ('b, 'v, 'd) action" where
  "then_do m f s = (case m s of (Inl e, s') \<Rightarrow> (Inl e, s') | (Inr x, s') \<Rightarrow> f x s')"

text \<open>\<^verbatim>\<open>try: ... except: pass\<close>\<close>

definition try_pass :: "('a, 'v, 'd) action \<Rightarrow> (unit, 'v, 'd) action" where
  "try_pass m s = (Inr (), snd (m s))"

text \<open>\<^verbatim>\<open>try: ... except TypeError: pass\<close>\<close>

definition except_type_error_pass :: "(unit, 'v, 'd) action \<Rightarrow> (unit, 'v, 'd) action" where
  "except_type_error_pass m s =
     (case m s of (Inl TypeError, s') \<Rightarrow> (Inr (), s') | other \<Rightarrow> other)"

text \<open>A \<^verbatim>\<open>for\<close> loop over a list: an exception ends it.\<close>

fun for_each :: "'a list \<Rightarrow> ('a \<Rightarrow> (unit, 'v, 'd) action) \<Rightarrow> (unit, 'v, 'd) action" where
  "for_each [] body s = (Inr (), s)"
| "for_each (x # xs) body s =
     (case body x s of (Inl e, s') \<Rightarrow> (Inl e, s') | (Inr u, s') \<Rightarrow> for_each xs body s')"

text \<open>A call into a library: recorded, then answered.\<close>

definition external :: "'v call \<Rightarrow> py_error + 'a \<Rightarrow> ('a, 'v, 'd) action" where
  "external c r s = (r, s\<lparr>calls := calls s @ [c]\<rparr>)"

definition get_report :: "('d report, 'v, 'd) action" where
  "get_report s = (Inr (report s), s)"

definition read_frame :: "nat \<Rightarrow> ('v dataframe, 'v, 'd) action" where
  "read_frame a s = (Inr (frames s a), s)"

text \<open>\<^verbatim>\<open>.copy()\<close>: a new frame with the same content, at a fresh address.\<close>

definition copy_frame :: "nat \<Rightarrow> (nat, 'v, 'd) action" where
  "copy_frame a s =
     (Inr (next_frame s),
      s\<lparr>frames := (frames s)(next_frame s := frames s a), next_frame := Suc (next_frame s)\<rparr>)"

text \<open>\<^verbatim>\<open>df[c] = ser\<close> on the frame at address \<open>a\<close>, in place.\<close>

definition setitem_column_at :: "nat \<Rightarrow> string \<Rightarrow> 'v series \<Rightarrow> (unit, 'v, 'd) action" where
  "setitem_column_at a c ser s =
     (case setitem_column (frames s a) c ser of
        Inl e \<Rightarrow> (Inl e, s)
      | Inr df \<Rightarrow> (Inr (), s\<lparr>frames := (frames s)(a := df)\<rparr>))"

definition get_block :: "target \<Rightarrow> ('d block, 'v, 'd) action" where
  "get_block t s = (lookup_block t (report s), s)"

text \<open>An assignment to a key of a block: the block is looked up, then updated.\<close>

definition set_in_block :: "target \<Rightarrow> ('d block \<Rightarrow> 'd block) \<Rightarrow> (unit, 'v, 'd) action" where
  "set_in_block t f s =
     (case lookup_block t (report s) of
        Inl e \<Rightarrow> (Inl e, s)
      | Inr b \<Rightarrow> (Inr (), s\<lparr>report := update_block t f (report s)\<rparr>))"

text \<open>\<^verbatim>\<open>block['prediction_matrixes'].append(matrix)\<close>\<close>

definition append_matrix :: "target \<Rightarrow> matrix \<Rightarrow> (unit, 'v, 'd) action" where
  "append_matrix t m s =
     (case lookup_block t (report s) of
        Inl e \<Rightarrow> (Inl e, s)
      | Inr b \<Rightarrow>
          (case prediction_matrixes b of
             None \<Rightarrow> (Inl (KeyError ''prediction_matrixes''), s)
           | Some ms \<Rightarrow>
               (Inr (),
                s\<lparr>report :=
                    update_block t (\<lambda>b. b\<lparr>prediction_matrixes := Some (ms @ [m])\<rparr>) (report s)\<rparr>)))"

text \<open>\<^verbatim>\<open>block.pop("split")\<close>\<close>

definition pop_split :: "target \<Rightarrow> ('d split_data, 'v, 'd) action" where
  "pop_split t s =
     (case lookup_block t (report s) of
        Inl e \<Rightarrow> (Inl e, s)
      | Inr b \<Rightarrow>
          (case split b of
             None \<Rightarrow> (Inl (KeyError ''split''), s)
           | Some sp \<Rightarrow>
               (Inr sp, s\<lparr>report := update_block t (\<lambda>b. b\<lparr>split := None\<rparr>) (report s)\<rparr>)))"

section \<open>The rendering wrappers\<close>

text \<open>
  \<^verbatim>\<open>yellowbrick_to_img(plot, **kwargs)\<close>; the flag is the keyword argument
  \<^verbatim>\<open>rearrange_x_labels\<close>.
\<close>

definition yellowbrick_to_img ::
  "('v, 'd, 'p) externals \<Rightarrow> 'p \<Rightarrow> bool \<Rightarrow> (string, 'v, 'd) action" where
  "yellowbrick_to_img ext plot rearrange_x_labels =
     then_do (if rearrange_x_labels then external XTicks (xticks ext) else succeed ()) (\<lambda>u.
     then_do (external Poof (poof ext plot)) (\<lambda>imgdata.
     then_do (external Finalize (finalize ext plot)) (\<lambda>u.
     succeed (to_img imgdata))))"

text \<open>
  \<^verbatim>\<open>_plot_histogram\<close>: a date series is drawn on a new subplot, and a \<open>TypeError\<close>
  of the drawing is swallowed (the plot stays empty); any other series is drawn by
  pandas. The new figure, its subplot and its label are one call here.
\<close>

definition plot_histogram ::
  "('v, 'd, 'p) externals \<Rightarrow> 'd \<Rightarrow> bool \<Rightarrow> ('p, 'v, 'd) action" where
  "plot_histogram ext series small =
     then_do (external GetVartype (get_vartype_is_date ext series)) (\<lambda>is_date.
       if is_date then
         then_do (external NewSubplot (new_subplot ext small)) (\<lambda>plot.
         then_do (except_type_error_pass (external Hist (hist ext plot series))) (\<lambda>u.
         succeed plot))
       else external SeriesPlot (series_plot ext series small))"

definition histogram :: "('v, 'd, 'p) externals \<Rightarrow> 'd \<Rightarrow> (string, 'v, 'd) action" where
  "histogram ext series =
     then_do (plot_histogram ext series False) (\<lambda>plot.
     then_do (external SubplotsAdjust (subplots_adjust ext plot False)) (\<lambda>u.
     then_do (external Savefig (savefig ext plot)) (\<lambda>imgdata.
     then_do (external CloseFigure (close_figure ext plot)) (\<lambda>u.
     succeed (to_img imgdata)))))"

text \<open>
  \<^verbatim>\<open>mini_histogram\<close>; the background colour and the tick labels (lines 115 to 129)
  are one call.
\<close>

definition mini_histogram :: "('v, 'd, 'p) externals \<Rightarrow> 'd \<Rightarrow> (string, 'v, 'd) action" where
  "mini_histogram ext series =
     then_do (plot_histogram ext series True) (\<lambda>plot.
     then_do (external MiniTicks (mini_ticks ext plot)) (\<lambda>u.
     then_do (external SubplotsAdjust (subplots_adjust ext plot True)) (\<lambda>u.
     then_do (external Savefig (savefig ext plot)) (\<lambda>imgdata.
     then_do (external CloseFigure (close_figure ext plot)) (\<lambda>u.
     succeed (to_img imgdata))))))"

text \<open>\<^verbatim>\<open>correlation_matrix\<close>; drawing the image (lines 151 to 169) is one call.\<close>

definition correlation_matrix ::
  "('v, 'd, 'p) externals \<Rightarrow> 'd \<Rightarrow> string \<Rightarrow> (string, 'v, 'd) action" where
  "correlation_matrix ext corrdf title =
     then_do (external CorrelationImage (correlation_image ext corrdf title)) (\<lambda>matrix_image.
     then_do (external Savefig (savefig ext matrix_image)) (\<lambda>imgdata.
     then_do (external CloseFigure (close_figure ext matrix_image)) (\<lambda>u.
     succeed (to_img imgdata))))"

text \<open>
  \<^verbatim>\<open>missing_matrix(df, predictions = False)\<close>: missingno is called with
  \<^verbatim>\<open>predictions = True\<close> when the flag is set and without the argument otherwise.
\<close>

definition missing_matrix ::
  "('v, 'd, 'p) externals \<Rightarrow> 'v dataframe \<Rightarrow> bool \<Rightarrow> (string, 'v, 'd) action" where
  "missing_matrix ext df predictions =
     then_do (if predictions then external (MsnoMatrix df True) (msno_matrix ext df True)
              else external (MsnoMatrix df False) (msno_matrix ext df False)) (\<lambda>plot.
     then_do (external Savefig (savefig ext plot)) (\<lambda>imgdata.
     then_do (external CloseFigure (close_figure ext plot)) (\<lambda>u.
     succeed (to_img imgdata))))"

definition missing_bar ::
  "('v, 'd, 'p) externals \<Rightarrow> 'v dataframe \<Rightarrow> (string, 'v, 'd) action" where
  "missing_bar ext df =
     then_do (external (MsnoBar df) (msno_bar ext df)) (\<lambda>plot.
     then_do (external Savefig (savefig ext plot)) (\<lambda>imgdata.
     then_do (external CloseFigure (close_figure ext plot)) (\<lambda>u.
     succeed (to_img imgdata))))"

definition missing_heat ::
  "('v, 'd, 'p) externals \<Rightarrow> 'v dataframe \<Rightarrow> (string, 'v, 'd) action" where
  "missing_heat ext df =
     then_do (external (MsnoHeatmap df) (msno_heatmap ext df)) (\<lambda>plot.
     then_do (external Savefig (savefig ext plot)) (\<lambda>imgdata.
     then_do (external CloseFigure (close_figure ext plot)) (\<lambda>u.
     succeed (to_img imgdata))))"

definition missing_dendrogram ::
  "('v, 'd, 'p) externals \<Rightarrow> 'v dataframe \<Rightarrow> (string, 'v, 'd) action" where
  "missing_dendrogram ext df =
     then_do (external (MsnoDendrogram df) (msno_dendrogram ext df)) (\<lambda>plot.
     then_do (external Savefig (savefig ext plot)) (\<lambda>imgdata.
     then_do (external CloseFigure (close_figure ext plot)) (\<lambda>u.
     succeed (to_img imgdata))))"

section \<open>The pipeline: \<^verbatim>\<open>generate_report_visualizations\<close>\<close>

text \<open>
  \<^verbatim>\<open>str(pair[0]) + "\<rightarrow>" + str(pair[1])\<close>: the arrow is U+2192, three bytes in the
  UTF-8 encoding of the source file; \<^verbatim>\<open>str\<close> of a missing value is \<^verbatim>\<open>nan\<close>.
\<close>

definition arrow :: string where
  "arrow = [CHR 0xE2, CHR 0x86, CHR 0x92]"

definition str_cell :: "('v, 'd, 'p) externals \<Rightarrow> 'v cell \<Rightarrow> string" where
  "str_cell ext c = (case c of None \<Rightarrow> ''nan'' | Some v \<Rightarrow> str_of ext v)"

definition pair_name :: "('v, 'd, 'p) externals \<Rightarrow> 'v cell \<times> 'v cell \<Rightarrow> string" where
  "pair_name ext pair = str_cell ext (fst pair) @ arrow @ str_cell ext (snd pair)"

text \<open>
  The body of the loop over the pairs (lines 282 to 284 for the baseline, 291 to 293
  for a strategy): \<open>t\<close> is the block that receives the matrix, \<open>a\<close> the address of
  \<open>df\<close>.
\<close>

definition pair_matrix ::
  "('v, 'd, 'p) externals \<Rightarrow> target \<Rightarrow> nat \<Rightarrow> 'v cell \<times> 'v cell \<Rightarrow> (unit, 'v, 'd) action" where
  "pair_matrix ext t a pair =
     then_do (read_frame a) (\<lambda>df.
     then_do (lift (reorder df pair)) (\<lambda>ordered.
     then_do (missing_matrix ext ordered True) (\<lambda>img.
     append_matrix t \<lparr>m_name = pair_name ext pair, m_image = img\<rparr>)))"

text \<open>
  Lines 279 to 284 (baseline) and 288 to 293 (a strategy): the matrix of the frame as it
  is, the error pairs, and one matrix per pair.
\<close>

definition prediction_matrixes_for ::
  "('v, 'd, 'p) externals \<Rightarrow> target \<Rightarrow> nat \<Rightarrow> (unit, 'v, 'd) action" where
  "prediction_matrixes_for ext t a =
     then_do (read_frame a) (\<lambda>df.
     then_do (missing_matrix ext df True) (\<lambda>img.
     then_do (set_in_block t (\<lambda>b. b\<lparr>prediction_matrixes :=
                Some [\<lparr>m_name = ''Original Dataset'', m_image = img\<rparr>]\<rparr>)) (\<lambda>u.
     then_do (lift (combinations df)) (\<lambda>pairs.
     for_each pairs (pair_matrix ext t a)))))"

text \<open>
  Lines 286 and 287: \<open>df\<close> of a strategy is a copy of \<^verbatim>\<open>report['dataframe']['test']\<close>
  whose column \<^verbatim>\<open>pred\<close> is the column \<^verbatim>\<open>pred\<close> of the result of the strategy.
\<close>

definition strategy_frame :: "string \<Rightarrow> (nat, 'v, 'd) action" where
  "strategy_frame k =
     then_do get_report (\<lambda>r.
     then_do (copy_frame (dataframe_test r)) (\<lambda>a.
     then_do (get_block (Strategy k)) (\<lambda>b.
     then_do (read_frame (result b)) (\<lambda>res.
     then_do (lift (getitem_column res ''pred'')) (\<lambda>pred.
     then_do (setitem_column_at a ''pred'' pred) (\<lambda>u.
     succeed a))))))"

text \<open>
  Lines 295 to 300 (baseline) and 302 to 307 (a strategy). The classifier, the classes
  found in \<open>y_train\<close> and the visualizer are made in one call.
\<close>

definition precision_recall_for ::
  "('v, 'd, 'p) externals \<Rightarrow> target \<Rightarrow> (unit, 'v, 'd) action" where
  "precision_recall_for ext t =
     then_do (pop_split t) (\<lambda>sp.
     then_do (external NewPrecisionRecallCurve
                (new_precision_recall_curve ext (y_train sp))) (\<lambda>pc.
     then_do (external Fit (fit ext pc (x_train sp) (y_train sp))) (\<lambda>pc.
     then_do (external Score (score ext pc (x_test sp) (y_test sp))) (\<lambda>pc.
     then_do (yellowbrick_to_img ext pc False) (\<lambda>img.
     then_do (set_in_block t (\<lambda>b. b\<lparr>precision_recall_curve := Some img\<rparr>)) (\<lambda>u.
     external PltClose (plt_close ext)))))))"

text \<open>Lines 267 to 293: the styles, the matrix of the whole report, the matrixes of every block.\<close>

definition matrix_phase :: "('v, 'd, 'p) externals \<Rightarrow> (unit, 'v, 'd) action" where
  "matrix_phase ext =
     then_do (try_pass (external (StyleUse ''default'') (style_use ext ''default''))) (\<lambda>u.
     then_do (external (StyleUse (mplstyle ext)) (style_use ext (mplstyle ext))) (\<lambda>u.
     then_do get_report (\<lambda>r.
     then_do (read_frame (dataframe_modified r)) (\<lambda>df.
     then_do (missing_matrix ext df False) (\<lambda>img.
     then_do (\<lambda>s. (Inr (), s\<lparr>report := (report s)\<lparr>report_missing_matrix := Some img\<rparr>\<rparr>)) (\<lambda>u.
     then_do get_report (\<lambda>r.
     then_do (prediction_matrixes_for ext Baseline (result (baseline r))) (\<lambda>u.
     then_do get_report (\<lambda>r.
     for_each (map fst (strategy_classifications r)) (\<lambda>k.
       then_do (strategy_frame k) (\<lambda>a.
       prediction_matrixes_for ext (Strategy k) a)))))))))))"

text \<open>Lines 295 to 307: the precision-recall curve of every block.\<close>

definition curve_phase :: "('v, 'd, 'p) externals \<Rightarrow> (unit, 'v, 'd) action" where
  "curve_phase ext =
     then_do (precision_recall_for ext Baseline) (\<lambda>u.
     then_do get_report (\<lambda>r.
     for_each (map fst (strategy_classifications r)) (\<lambda>k.
       precision_recall_for ext (Strategy k))))"

definition generate_report_visualizations ::
  "('v, 'd, 'p) externals \<Rightarrow> ('d report, 'v, 'd) action" where
  "generate_report_visualizations ext =
     then_do (matrix_phase ext) (\<lambda>u.
     then_do (curve_phase ext) (\<lambda>u.
     get_report))"

section \<open>Notions used to state the properties\<close>


text \<open>
  The dataset \<open>df\<close> of a block as the source builds it: the result of the baseline as it
  is (line 278); for a strategy, the test frame of the report with the column
  \<^verbatim>\<open>pred\<close> of the result of the strategy (lines 286 and 287).
\<close>

definition strategy_df :: "'v dataframe \<Rightarrow> 'v dataframe \<Rightarrow> py_error + 'v dataframe" where
  "strategy_df test res =
     (case getitem_column res ''pred'' of
        Inl e \<Rightarrow> Inl e
      | Inr pred \<Rightarrow> setitem_column test ''pred'' pred)"

definition block_frame :: "('v, 'd) state \<Rightarrow> target \<Rightarrow> py_error + 'v dataframe" where
  "block_frame s t =
     (case t of
        Baseline \<Rightarrow> Inr (frames s (result (baseline (report s))))
      | Strategy k \<Rightarrow>
          (case lookup_block t (report s) of
             Inl e \<Rightarrow> Inl e
           | Inr b \<Rightarrow> strategy_df (frames s (dataframe_test (report s))) (frames s (result b))))"

text \<open>
  What the entries of \<^verbatim>\<open>prediction_matrixes\<close> are for a frame \<open>df\<close>: the first is
  named \<^verbatim>\<open>Original Dataset\<close> and holds what \<open>missing_matrix\<close> returns for \<open>df\<close>
  itself; then one entry per error pair of \<open>df\<close>, in their order, named after the pair
  and holding what \<open>missing_matrix\<close> returns for \<open>df\<close> reordered for the pair. The
  state \<open>s\<close> is only the state the wrapper is called in: its result does not depend
  on it (lemma \<open>missing_matrix_result\<close>).
\<close>

definition original_matrix ::
  "('v, 'd, 'p) externals \<Rightarrow> ('v, 'd) state \<Rightarrow> 'v dataframe \<Rightarrow> matrix \<Rightarrow> bool" where
  "original_matrix ext s df m =
     (m_name m = ''Original Dataset'' \<and> fst (missing_matrix ext df True s) = Inr (m_image m))"

definition pair_matrix_of ::
  "('v, 'd, 'p) externals \<Rightarrow> ('v, 'd) state \<Rightarrow> 'v dataframe \<Rightarrow> 'v cell \<times> 'v cell \<Rightarrow> matrix \<Rightarrow> bool" where
  "pair_matrix_of ext s df pair m =
     (m_name m = pair_name ext pair \<and>
      (case reorder df pair of
         Inl e \<Rightarrow> False
       | Inr ordered \<Rightarrow> fst (missing_matrix ext ordered True s) = Inr (m_image m)))"

definition matrixes_of_frame ::
  "('v, 'd, 'p) externals \<Rightarrow> ('v, 'd) state \<Rightarrow> 'v dataframe \<Rightarrow> matrix list \<Rightarrow> bool" where
  "matrixes_of_frame ext s df ms =
     (case combinations df of
        Inl e \<Rightarrow> False
      | Inr pairs \<Rightarrow>
          (case ms of
             [] \<Rightarrow> False
           | m # rest \<Rightarrow>
               original_matrix ext s df m \<and> list_all2 (pair_matrix_of ext s df) pairs rest))"

text \<open>
  The calls of a matrix of a block (missingno is asked for the annotation), and the
  calls of one precision-recall curve.
\<close>

definition block_matrix_call :: "'v call \<Rightarrow> bool" where
  "block_matrix_call c =
     (case c of MsnoMatrix df p \<Rightarrow> p | Savefig \<Rightarrow> True | CloseFigure \<Rightarrow> True | _ \<Rightarrow> False)"

definition curve_calls :: "'v call list" where
  "curve_calls = [NewPrecisionRecallCurve, Fit, Score, Poof, Finalize, PltClose]"

text \<open>The store is the same after a step that only calls a library or updates the report.\<close>

definition same_store :: "('v, 'd) state \<Rightarrow> ('v, 'd) state \<Rightarrow> bool" where
  "same_store s s' = (frames s' = frames s \<and> next_frame s' = next_frame s)"

text \<open>
  Whether the figure of a precision-recall curve is open after the calls \<open>cs\<close>, given
  whether it was before: yellowbrick draws the curve on matplotlib's current figure when
  the visualizer scores, and \<^verbatim>\<open>plt.close()\<close> closes the current figure.
\<close>

fun curve_surface_open :: "bool \<Rightarrow> 'v call list \<Rightarrow> bool" where
  "curve_surface_open opened [] = opened"
| "curve_surface_open opened (c # cs) =
     curve_surface_open (case c of Score \<Rightarrow> True | PltClose \<Rightarrow> False | _ \<Rightarrow> opened) cs"

text \<open>
  A state as Python can have it: every reference of the report is to a frame of the
  store, and the keys of the dictionary of strategies are distinct.
\<close>

definition valid_refs :: "('v, 'd) state \<Rightarrow> bool" where
  "valid_refs s =
     (dataframe_modified (report s) < next_frame s \<and>
      dataframe_test (report s) < next_frame s \<and>
      result (baseline (report s)) < next_frame s \<and>
      list_all (\<lambda>e. result (snd e) < next_frame s) (strategy_classifications (report s)))"

definition well_formed :: "('v, 'd) state \<Rightarrow> bool" where
  "well_formed s =
     (valid_refs s \<and> distinct (map fst (strategy_classifications (report s))))"

text \<open>The frames of \<open>s\<close> are still there in \<open>s'\<close>, unchanged.\<close>

definition store_kept :: "('v, 'd) state \<Rightarrow> ('v, 'd) state \<Rightarrow> bool" where
  "store_kept s s' =
     (next_frame s \<le> next_frame s' \<and> (\<forall>a < next_frame s. frames s' a = frames s a))"

text \<open>A frame with one feature column and the rows (0,0), (0,1), (1,0), (0,1) of labels.\<close>

definition example_frame :: "nat dataframe" where
  "example_frame =
     \<lparr>columns = [''age'', ''label'', ''pred''],
      rows = [(0, [Some 31, Some 0, Some 0]), (1, [None, Some 0, Some 1]),
              (2, [Some 47, Some 1, Some 0]), (3, [None, Some 0, Some 1])]\<rparr>"

section \<open>A small report\<close>

text \<open>
  Toy libraries that never raise, for the labels 0 and 1: a matrix is drawn as one byte for the annotation flag
  and one byte per row, the number of missing cells of the row; a curve is drawn from the
  data it was fitted and scored on; a figure is saved as the bytes drawn.
\<close>

definition draw_frame :: "nat dataframe \<Rightarrow> 8 word list" where
  "draw_frame df = map (\<lambda>r. of_nat (length (filter (\<lambda>c. c = None) (snd r)))) (rows df)"

definition toy_externals :: "(nat, nat, 8 word list) externals" where
  "toy_externals =
     \<lparr>str_of = (\<lambda>n. if n = 0 then ''0'' else ''1''),
      mplstyle = ''preprocessing_profiling.mplstyle'',
      style_use = (\<lambda>name. Inr ()),
      msno_matrix = (\<lambda>df p. Inr ((if p then 1 else 0) # draw_frame df)),
      msno_bar = (\<lambda>df. Inr (2 # draw_frame df)),
      msno_heatmap = (\<lambda>df. Inr (3 # draw_frame df)),
      msno_dendrogram = (\<lambda>df. Inr (4 # draw_frame df)),
      savefig = (\<lambda>plot. Inr plot),
      close_figure = (\<lambda>plot. Inr ()),
      new_precision_recall_curve = (\<lambda>y. Inr [of_nat y]),
      fit = (\<lambda>pc x y. Inr (pc @ [of_nat x, of_nat y])),
      score = (\<lambda>pc x y. Inr (pc @ [of_nat x, of_nat y])),
      xticks = Inr (),
      poof = (\<lambda>pc. Inr pc),
      finalize = (\<lambda>pc. Inr ()),
      plt_close = Inr (),
      get_vartype_is_date = (\<lambda>series. Inr (series = 0)),
      new_subplot = (\<lambda>small. Inr [if small then 1 else 0]),
      hist = (\<lambda>plot series. Inl TypeError),
      series_plot = (\<lambda>series small. Inr [of_nat series, if small then 1 else 0]),
      subplots_adjust = (\<lambda>plot small. Inr ()),
      mini_ticks = (\<lambda>plot. Inr ()),
      correlation_image = (\<lambda>corrdf title. Inr [of_nat corrdf])\<rparr>"

text \<open>
  The frames: the modified frame of the report, its test frame (one missing age), the
  result of the baseline (\<open>example_frame\<close>: two error pairs), and the result of a
  strategy that filled the missing age in and predicted every label right.
\<close>

definition modified_frame :: "nat dataframe" where
  "modified_frame =
     \<lparr>columns = [''age'', ''label''],
      rows = [(0, [None, Some 0]), (1, [Some 40, Some 1]), (2, [Some 31, None])]\<rparr>"

definition test_frame :: "nat dataframe" where
  "test_frame =
     \<lparr>columns = [''age'', ''label''],
      rows = [(0, [None, Some 0]), (1, [Some 40, Some 1])]\<rparr>"

definition imputed_frame :: "nat dataframe" where
  "imputed_frame =
     \<lparr>columns = [''age'', ''label'', ''pred''],
      rows = [(0, [Some 35, Some 0, Some 0]), (1, [Some 40, Some 1, Some 1])]\<rparr>"

definition toy_split :: "nat split_data" where
  "toy_split = \<lparr>x_train = 1, y_train = 2, x_test = 3, y_test = 4\<rparr>"

definition toy_report :: "nat report" where
  "toy_report =
     \<lparr>dataframe_modified = 0,
      dataframe_test = 1,
      baseline = \<lparr>result = 2, split = Some toy_split, prediction_matrixes = None,
                   precision_recall_curve = None\<rparr>,
      strategy_classifications =
        [(''mean'', \<lparr>result = 3, split = Some toy_split, prediction_matrixes = None,
                     precision_recall_curve = None\<rparr>)],
      report_missing_matrix = None\<rparr>"

definition toy_state :: "(nat, nat) state" where
  "toy_state =
     \<lparr>frames = (\<lambda>a. if a = 0 then modified_frame else if a = 1 then test_frame
                      else if a = 2 then example_frame else imputed_frame),
      next_frame = 4,
      calls = [],
      report = toy_report\<rparr>"

text \<open>What the pipeline makes of the small report.\<close>

definition toy_assembled :: "nat report" where
  "toy_assembled =
     \<lparr>dataframe_modified = 0,
      dataframe_test = 1,
      baseline =
        \<lparr>result = 2, split = None,
         prediction_matrixes =
           Some [\<lparr>m_name = ''Original Dataset'', m_image = to_img [1, 0, 1, 0, 1]\<rparr>,
                 \<lparr>m_name = ''0'' @ arrow @ ''1'', m_image = to_img [1, 1, 1, 0, 0]\<rparr>,
                 \<lparr>m_name = ''1'' @ arrow @ ''0'', m_image = to_img [1, 0, 0, 1, 1]\<rparr>],
         precision_recall_curve = Some (to_img [2, 1, 2, 3, 4])\<rparr>,
      strategy_classifications =
        [(''mean'',
          \<lparr>result = 3, split = None,
           prediction_matrixes =
             Some [\<lparr>m_name = ''Original Dataset'', m_image = to_img [1, 1, 0]\<rparr>],
           precision_recall_curve = Some (to_img [2, 1, 2, 3, 4])\<rparr>)],
      report_missing_matrix = Some (to_img [0, 1, 0, 1])\<rparr>"

text \<open>The small report without the split of its baseline, and libraries that cannot save a curve.\<close>

definition unsplit_state :: "(nat, nat) state" where
  "unsplit_state =
     toy_state\<lparr>report := toy_report\<lparr>baseline := (baseline toy_report)\<lparr>split := None\<rparr>\<rparr>\<rparr>"

definition failing_poof :: "(nat, nat, 8 word list) externals" where
  "failing_poof = toy_externals\<lparr>poof := (\<lambda>pc. Inl (LibraryError ''savefig''))\<rparr>"


text \<open>The small report handed to the pipeline again once it is assembled.\<close>

definition assembled_state :: "(nat, nat) state" where
  "assembled_state = toy_state\<lparr>report := toy_assembled\<rparr>"

section \<open>Error pairs and reordering\<close>







lemma combinations_error:
  "length (columns df) < 2 \<Longrightarrow> combinations df = Inl IndexError"
  by (auto simp: combinations_def iloc_column_def)












section \<open>The wire format of an image artifact\<close>

lemma b64_char_alphabet: "i < 64 \<Longrightarrow> b64_char i \<in> set b64_alphabet"
  unfolding b64_char_def by (rule nth_mem) (simp add: b64_alphabet_def)

lemma pad_not_in_alphabet: "CHR ''='' \<notin> set b64_alphabet"
  by (simp add: b64_alphabet_def)

lemma b64_char_not_pad: "i < 64 \<Longrightarrow> b64_char i \<noteq> CHR ''=''"
  using b64_char_alphabet[of i] pad_not_in_alphabet by metis

lemma unat_byte: "unat (a :: 8 word) < 256"
  using unsigned_less[of a, where 'a = nat] by simp

lemma b64_indices:
  fixes a b c :: "8 word"
  shows "unat a div 4 < 64" "unat a mod 4 * 16 < 64" "unat a mod 4 * 16 + unat b div 16 < 64"
    "unat b mod 16 * 4 < 64" "unat b mod 16 * 4 + unat c div 64 < 64" "unat c mod 64 < 64"
  using unat_byte[of a] unat_byte[of b] unat_byte[of c] by simp_all

lemma is_base64_group:
  assumes "c1 \<in> set b64_alphabet" "c2 \<in> set b64_alphabet" "c3 \<in> set b64_alphabet"
    "c4 \<in> set b64_alphabet" "is_base64 s"
  shows "is_base64 (c1 # c2 # c3 # c4 # s)"
proof -
  have "c1 \<noteq> CHR ''=''" "c2 \<noteq> CHR ''=''" "c3 \<noteq> CHR ''=''" "c4 \<noteq> CHR ''=''"
    using assms pad_not_in_alphabet by metis+
  then show ?thesis using assms by (simp add: is_base64_def)
qed

lemma is_base64_b64encode: "is_base64 (b64encode bs)"
proof (induction bs rule: b64encode.induct)
  case 1
  then show ?case by (simp add: is_base64_def)
next
  case (2 a)
  then show ?case
    by (simp add: is_base64_def b64_char_alphabet b64_char_not_pad b64_indices)
next
  case (3 a b)
  then show ?case
    by (simp add: is_base64_def b64_char_alphabet b64_char_not_pad b64_indices)
next
  case (4 a b c bs)
  then show ?case
    by (simp add: is_base64_group b64_char_alphabet b64_indices)
qed

lemma of_char_bound: "of_char c < (256::nat)"
proof -
  have "of_char c mod 256 = (of_char c :: nat)" by simp
  then show ?thesis by (metis mod_less_divisor zero_less_numeral)
qed

lemma hex_digit_all:
  "list_all (\<lambda>n. hex_digit n \<in> set always_safe \<and> hex_value (hex_digit n) = n) [0..<16]"
  by (simp add: hex_digit_def hex_value_def always_safe_def upt_rec)

lemma hex_digit_cases:
  assumes "n < 16"
  shows "hex_digit n \<in> set always_safe \<and> hex_value (hex_digit n) = n"
proof -
  from assms have "n \<in> set [0..<16]" by simp
  with hex_digit_all show ?thesis unfolding list_all_iff by blast
qed

lemma hex_digit_of_char:
  "hex_digit (of_char c div 16) \<in> set always_safe"
  "hex_digit (of_char c mod 16) \<in> set always_safe"
  "hex_value (hex_digit (of_char c div 16)) = of_char c div 16"
  "hex_value (hex_digit (of_char c mod 16)) = of_char c mod 16"
proof -
  have "of_char c div 16 < (16::nat)"
    using of_char_bound[of c] by (simp add: less_mult_imp_div_less)
  moreover have "of_char c mod 16 < (16::nat)" by simp
  ultimately show "hex_digit (of_char c div 16) \<in> set always_safe"
    "hex_digit (of_char c mod 16) \<in> set always_safe"
    "hex_value (hex_digit (of_char c div 16)) = of_char c div 16"
    "hex_value (hex_digit (of_char c mod 16)) = of_char c mod 16"
    using hex_digit_cases by blast+
qed

lemma percent_not_safe: "CHR ''%'' \<notin> set always_safe"
  by (simp add: always_safe_def)

lemma url_safe_quote: "url_safe (quote s)"
proof -
  have "url_safe (quote_char c)" for c
    by (simp add: quote_char_def url_safe_def hex_digit_of_char)
  then show ?thesis
    by (induction s) (auto simp: quote_def url_safe_def)
qed

lemma unquote_quote: "unquote (quote s) = s"
proof (induction s)
  case Nil
  then show ?case by (simp add: quote_def)
next
  case (Cons c s)
  have q: "quote (c # s) = quote_char c @ quote s" by (simp add: quote_def)
  show ?case
  proof (cases "c \<in> set always_safe \<or> c = CHR ''/''")
    case True
    then have "c \<noteq> CHR ''%''" using percent_not_safe by auto
    then show ?thesis using True Cons by (simp add: q quote_char_def)
  next
    case False
    note h = hex_digit_of_char(3)[of c] and l = hex_digit_of_char(4)[of c]
    have "char_of (of_char c div 16 * 16 + of_char c mod 16 :: nat) = c"
      by simp
    then show ?thesis using False Cons by (simp add: q quote_char_def h l)
  qed
qed

lemma image_artifact_to_img: "image_artifact (to_img imgdata)"
  by (simp add: image_artifact_def to_img_def url_safe_quote unquote_quote is_base64_b64encode)

subsection \<open>Control flow\<close>

lemma then_do_Inr:
  "then_do m f s = (Inr y, s') \<longleftrightarrow> (\<exists>x s1. m s = (Inr x, s1) \<and> f x s1 = (Inr y, s'))"
  by (auto simp: then_do_def split: prod.splits sum.splits)

lemma then_do_step: "m s = (Inr x, s1) \<Longrightarrow> then_do m f s = f x s1"
  by (simp add: then_do_def)

lemma then_do_raise: "m s = (Inl e, s1) \<Longrightarrow> then_do m f s = (Inl e, s1)"
  by (simp add: then_do_def)

lemma for_each_Cons_Inr:
  "for_each (x # xs) body s = (Inr u, s') \<longleftrightarrow>
     (\<exists>s1. body x s = (Inr (), s1) \<and> for_each xs body s1 = (Inr u, s'))"
  by (auto split: prod.splits sum.splits)

subsection \<open>Blocks\<close>

lemma map_entry_compose:
  "AList.map_entry k f (AList.map_entry k g al) = AList.map_entry k (f \<circ> g) al"
  by (induction al) auto

lemma update_block_compose:
  "update_block t f (update_block t g r) = update_block t (f \<circ> g) r"
  by (cases t) (simp_all add: update_block_def map_entry_compose)

lemma lookup_update_same:
  "lookup_block t r = Inr b \<Longrightarrow> lookup_block t (update_block t f r) = Inr (f b)"
  by (cases t) (auto simp: lookup_block_def update_block_def map_of_map_entry split: option.splits)

lemma lookup_update_other:
  "t' \<noteq> t \<Longrightarrow> lookup_block t' (update_block t f r) = lookup_block t' r"
  by (cases t; cases t') (auto simp: lookup_block_def update_block_def map_of_map_entry)

lemma keys_map_entry: "map fst (AList.map_entry k f al) = map fst al"
  by (induction al) auto

lemma update_block_fields:
  "dataframe_modified (update_block t f r) = dataframe_modified r"
  "dataframe_test (update_block t f r) = dataframe_test r"
  "report_missing_matrix (update_block t f r) = report_missing_matrix r"
  "map fst (strategy_classifications (update_block t f r)) = map fst (strategy_classifications r)"
  by (cases t; simp add: update_block_def keys_map_entry)+

lemma lookup_strategy_iff:
  "(\<exists>b. lookup_block (Strategy k) r = Inr b) \<longleftrightarrow> k \<in> set (map fst (strategy_classifications r))"
proof -
  have "(\<exists>b. map_of (strategy_classifications r) k = Some b)
        \<longleftrightarrow> k \<in> fst ` set (strategy_classifications r)"
    by (metis map_of_eq_None_iff not_Some_eq)
  then show ?thesis
    by (auto simp: lookup_block_def split: option.splits)
qed

lemma lookup_strategy_mem:
  "lookup_block (Strategy k) r = Inr b \<Longrightarrow> (k, b) \<in> set (strategy_classifications r)"
  by (auto simp: lookup_block_def split: option.splits dest: map_of_SomeD)

lemma list_all_map_entry:
  "list_all P al \<Longrightarrow> (\<And>b. P (k, b) \<Longrightarrow> P (k, f b)) \<Longrightarrow> list_all P (AList.map_entry k f al)"
  by (induction al) auto

subsection \<open>The wrapper of missingno\<close>

lemma missing_matrix_result:
  "fst (missing_matrix ext df p s) = fst (missing_matrix ext df p s0)"
  by (auto simp: missing_matrix_def then_do_def external_def succeed_def split: sum.splits)

lemma missing_matrix_Inr:
  assumes "missing_matrix ext df p s = (Inr img, s')"
  shows "s' = s\<lparr>calls := calls s @ [MsnoMatrix df p, Savefig, CloseFigure]\<rparr>"
    and "fst (missing_matrix ext df p s0) = Inr img"
proof -
  show "s' = s\<lparr>calls := calls s @ [MsnoMatrix df p, Savefig, CloseFigure]\<rparr>"
    using assms
    by (auto simp: missing_matrix_def then_do_def external_def succeed_def
        split: sum.splits if_splits)
  show "fst (missing_matrix ext df p s0) = Inr img"
    using assms missing_matrix_result[of ext df p s0 s] by simp
qed


lemma map_entry_id:
  "map_of al k = Some b \<Longrightarrow> f b = b \<Longrightarrow> AList.map_entry k f al = al"
  by (induction al) (auto split: if_splits)

lemma update_block_id:
  "lookup_block t r = Inr b \<Longrightarrow> f b = b \<Longrightarrow> update_block t f r = r"
  by (cases t) (auto simp: lookup_block_def update_block_def map_entry_id split: option.splits)

subsection \<open>The matrixes of a block\<close>

lemma block_matrix_call_simps:
  "block_matrix_call (MsnoMatrix df p) = p" "block_matrix_call Savefig"
  "block_matrix_call CloseFigure"
  by (simp_all add: block_matrix_call_def)

lemma pair_matrix_Inr:
  assumes "pair_matrix ext t a pair s = (Inr (), s')"
  obtains b ms ordered img where
    "lookup_block t (report s) = Inr b" "prediction_matrixes b = Some ms"
    "reorder (frames s a) pair = Inr ordered"
    "fst (missing_matrix ext ordered True s0) = Inr img"
    "s' = s\<lparr>calls := calls s @ [MsnoMatrix ordered True, Savefig, CloseFigure],
            report := update_block t (\<lambda>b. b\<lparr>prediction_matrixes :=
                        Some (ms @ [\<lparr>m_name = pair_name ext pair, m_image = img\<rparr>])\<rparr>) (report s)\<rparr>"
proof -
  from assms obtain ordered img s1 where
    r: "reorder (frames s a) pair = Inr ordered"
    and mm: "missing_matrix ext ordered True s = (Inr img, s1)"
    and ap: "append_matrix t \<lparr>m_name = pair_name ext pair, m_image = img\<rparr> s1 = (Inr (), s')"
    by (auto simp: pair_matrix_def then_do_Inr read_frame_def lift_def)
  note s1 = missing_matrix_Inr(1)[OF mm] missing_matrix_Inr(2)[OF mm, of s0]
  from ap obtain b ms where
    "lookup_block t (report s1) = Inr b" "prediction_matrixes b = Some ms"
    "s' = s1\<lparr>report := update_block t (\<lambda>b. b\<lparr>prediction_matrixes :=
              Some (ms @ [\<lparr>m_name = pair_name ext pair, m_image = img\<rparr>])\<rparr>) (report s1)\<rparr>"
    by (auto simp: append_matrix_def split: sum.splits option.splits)
  then show thesis
    using r s1 by (intro that[of b ms ordered img]) simp_all
qed

lemma set_field_twice:
  "(\<lambda>b. b\<lparr>prediction_matrixes := x\<rparr>) \<circ> (\<lambda>b. b\<lparr>prediction_matrixes := y\<rparr>)
   = (\<lambda>b :: 'd block. b\<lparr>prediction_matrixes := x\<rparr>)"
  by (simp add: fun_eq_iff)

lemma pair_loop_Inr:
  "for_each pairs (pair_matrix ext t a) s = (Inr (), s') \<Longrightarrow>
   lookup_block t (report s) = Inr b \<Longrightarrow> prediction_matrixes b = Some ms \<Longrightarrow>
   \<exists>new cs. list_all2 (pair_matrix_of ext s0 (frames s a)) pairs new
      \<and> list_all block_matrix_call cs
      \<and> s' = s\<lparr>calls := calls s @ cs,
                report := update_block t (\<lambda>b. b\<lparr>prediction_matrixes := Some (ms @ new)\<rparr>)
                            (report s)\<rparr>"
proof (induction pairs arbitrary: s b ms)
  case Nil
  then have "s' = s" by simp
  moreover have "update_block t (\<lambda>b. b\<lparr>prediction_matrixes := Some ms\<rparr>) (report s) = report s"
    using Nil(2,3) by (intro update_block_id[of _ _ b]) simp_all
  ultimately show ?case
    by (intro exI[of _ "[]"]) simp
next
  case (Cons pair pairs)
  from Cons.prems(1) obtain s1 where
    step: "pair_matrix ext t a pair s = (Inr (), s1)"
    and rest: "for_each pairs (pair_matrix ext t a) s1 = (Inr (), s')"
    by (auto split: prod.splits sum.splits)
  from step obtain b' ms' ordered img where
    b': "lookup_block t (report s) = Inr b'" "prediction_matrixes b' = Some ms'"
    and o: "reorder (frames s a) pair = Inr ordered"
      "fst (missing_matrix ext ordered True s0) = Inr img"
    and s1: "s1 = s\<lparr>calls := calls s @ [MsnoMatrix ordered True, Savefig, CloseFigure],
            report := update_block t (\<lambda>b. b\<lparr>prediction_matrixes :=
                        Some (ms' @ [\<lparr>m_name = pair_name ext pair, m_image = img\<rparr>])\<rparr>) (report s)\<rparr>"
    by (rule pair_matrix_Inr[where ?s0.0 = s0])
  let ?m = "\<lparr>m_name = pair_name ext pair, m_image = img\<rparr>"
  from b' Cons.prems(2,3) have same: "b' = b" "ms' = ms" by simp_all
  have l1: "lookup_block t (report s1) = Inr (b\<lparr>prediction_matrixes := Some (ms @ [?m])\<rparr>)"
    using Cons.prems(2) by (simp add: s1 same lookup_update_same)
  from Cons.IH[OF rest l1] obtain new cs where
    n: "list_all2 (pair_matrix_of ext s0 (frames s1 a)) pairs new" "list_all block_matrix_call cs"
    and s': "s' = s1\<lparr>calls := calls s1 @ cs,
                report := update_block t (\<lambda>b. b\<lparr>prediction_matrixes := Some ((ms @ [?m]) @ new)\<rparr>)
                            (report s1)\<rparr>"
    by auto
  have m: "pair_matrix_of ext s0 (frames s a) pair ?m"
    using o by (simp add: pair_matrix_of_def)
  have f: "frames s1 a = frames s a" by (simp add: s1)
  show ?case
    apply (intro exI[of _ "?m # new"] exI[of _ "[MsnoMatrix ordered True, Savefig, CloseFigure] @ cs"])
    using n m f
    by (simp add: s' s1 same update_block_compose set_field_twice block_matrix_call_simps)
qed

lemma prediction_matrixes_for_Inr:
  assumes "prediction_matrixes_for ext t a s = (Inr (), s')"
  obtains b ms cs where
    "lookup_block t (report s) = Inr b"
    "matrixes_of_frame ext s0 (frames s a) ms"
    "list_all block_matrix_call cs"
    "s' = s\<lparr>calls := calls s @ cs,
            report := update_block t (\<lambda>b. b\<lparr>prediction_matrixes := Some ms\<rparr>) (report s)\<rparr>"
proof -
  let ?df = "frames s a"
  from assms obtain img s1 s2 pairs where
    mm: "missing_matrix ext ?df True s = (Inr img, s1)"
    and st: "set_in_block t (\<lambda>b. b\<lparr>prediction_matrixes :=
                Some [\<lparr>m_name = ''Original Dataset'', m_image = img\<rparr>]\<rparr>) s1 = (Inr (), s2)"
    and c: "combinations (frames s a) = Inr pairs"
    and loop: "for_each pairs (pair_matrix ext t a) s2 = (Inr (), s')"
    by (auto simp: prediction_matrixes_for_def then_do_Inr read_frame_def lift_def)
  let ?m = "\<lparr>m_name = ''Original Dataset'', m_image = img\<rparr>"
  note s1 = missing_matrix_Inr(1)[OF mm] missing_matrix_Inr(2)[OF mm, of s0]
  from st obtain b where
    b: "lookup_block t (report s1) = Inr b"
    and s2: "s2 = s1\<lparr>report := update_block t (\<lambda>b. b\<lparr>prediction_matrixes := Some [?m]\<rparr>) (report s1)\<rparr>"
    by (auto simp: set_in_block_def split: sum.splits)
  have l2: "lookup_block t (report s2) = Inr (b\<lparr>prediction_matrixes := Some [?m]\<rparr>)"
    using b by (simp add: s2 lookup_update_same)
  from pair_loop_Inr[OF loop l2, of "[?m]" s0] obtain new cs where
    n: "list_all2 (pair_matrix_of ext s0 (frames s2 a)) pairs new" "list_all block_matrix_call cs"
    and s': "s' = s2\<lparr>calls := calls s2 @ cs,
                report := update_block t (\<lambda>b. b\<lparr>prediction_matrixes := Some ([?m] @ new)\<rparr>)
                            (report s2)\<rparr>"
    by auto
  have f: "frames s2 a = frames s a" by (simp add: s2 s1)
  have "matrixes_of_frame ext s0 (frames s a) (?m # new)"
    using c n(1) s1(2) f by (simp add: matrixes_of_frame_def original_matrix_def)
  moreover have "list_all block_matrix_call ([MsnoMatrix ?df True, Savefig, CloseFigure] @ cs)"
    using n(2) by (simp add: block_matrix_call_simps)
  moreover have "s' = s\<lparr>calls := calls s @ [MsnoMatrix ?df True, Savefig, CloseFigure] @ cs,
            report := update_block t (\<lambda>b. b\<lparr>prediction_matrixes := Some (?m # new)\<rparr>) (report s)\<rparr>"
    by (simp add: s' s2 s1 update_block_compose set_field_twice)
  moreover have "lookup_block t (report s) = Inr b"
    using b by (simp add: s1)
  ultimately show thesis
    by (intro that[of b "?m # new" "[MsnoMatrix ?df True, Savefig, CloseFigure] @ cs"])
qed

subsection \<open>When a step succeeds\<close>

lemma succeed_Inr: "succeed x s = (Inr y, s') \<longleftrightarrow> y = x \<and> s' = s"
  by (auto simp: succeed_def)

lemma lift_Inr: "lift r s = (Inr x, s') \<longleftrightarrow> r = Inr x \<and> s' = s"
  by (auto simp: lift_def)

lemma external_Inr:
  "external c r s = (Inr x, s') \<longleftrightarrow> r = Inr x \<and> s' = s\<lparr>calls := calls s @ [c]\<rparr>"
  by (auto simp: external_def)

lemma get_report_Inr: "get_report s = (Inr r, s') \<longleftrightarrow> r = report s \<and> s' = s"
  by (auto simp: get_report_def)

lemma read_frame_Inr: "read_frame a s = (Inr df, s') \<longleftrightarrow> df = frames s a \<and> s' = s"
  by (auto simp: read_frame_def)

lemma get_block_Inr:
  "get_block t s = (Inr b, s') \<longleftrightarrow> lookup_block t (report s) = Inr b \<and> s' = s"
  by (auto simp: get_block_def)

lemma copy_frame_Inr:
  "copy_frame a s = (Inr n, s') \<longleftrightarrow>
     n = next_frame s \<and>
     s' = s\<lparr>frames := (frames s)(next_frame s := frames s a), next_frame := Suc (next_frame s)\<rparr>"
  by (auto simp: copy_frame_def)

lemma setitem_column_at_Inr:
  "setitem_column_at a c ser s = (Inr u, s') \<longleftrightarrow>
     (\<exists>df. setitem_column (frames s a) c ser = Inr df \<and> s' = s\<lparr>frames := (frames s)(a := df)\<rparr>)"
  by (cases "setitem_column (frames s a) c ser") (auto simp: setitem_column_at_def)

lemma set_in_block_Inr:
  "set_in_block t f s = (Inr u, s') \<longleftrightarrow>
     (\<exists>b. lookup_block t (report s) = Inr b) \<and> s' = s\<lparr>report := update_block t f (report s)\<rparr>"
  by (cases "lookup_block t (report s)") (auto simp: set_in_block_def)

lemma pop_split_Inr:
  "pop_split t s = (Inr sp, s') \<longleftrightarrow>
     (\<exists>b. lookup_block t (report s) = Inr b \<and> split b = Some sp) \<and>
     s' = s\<lparr>report := update_block t (\<lambda>b. b\<lparr>split := None\<rparr>) (report s)\<rparr>"
  by (cases "lookup_block t (report s)")
     (auto simp: pop_split_def split: option.splits)

subsection \<open>The frame of a strategy\<close>

lemma strategy_frame_Inr:
  assumes "strategy_frame k s = (Inr a, s')"
  obtains b pred df where
    "lookup_block (Strategy k) (report s) = Inr b"
    "getitem_column (((frames s)(next_frame s := frames s (dataframe_test (report s))))
        (result b)) ''pred'' = Inr pred"
    "setitem_column (frames s (dataframe_test (report s))) ''pred'' pred = Inr df"
    "a = next_frame s"
    "s' = s\<lparr>frames := (frames s)(next_frame s := df), next_frame := Suc (next_frame s)\<rparr>"
  using assms
  by (auto simp: strategy_frame_def then_do_Inr get_report_Inr copy_frame_Inr get_block_Inr
      read_frame_Inr lift_Inr setitem_column_at_Inr succeed_Inr)

lemma valid_refs_result:
  "valid_refs s \<Longrightarrow> lookup_block t (report s) = Inr b \<Longrightarrow> result b < next_frame s"
  by (cases t)
     (auto simp: valid_refs_def lookup_block_def list_all_iff split: option.splits
           dest!: map_of_SomeD)

lemma strategy_step_Inr:
  assumes "then_do (strategy_frame k) (\<lambda>a. prediction_matrixes_for ext (Strategy k) a) s
             = (Inr (), s')"
    and "valid_refs s"
  obtains b df ms cs where
    "lookup_block (Strategy k) (report s) = Inr b"
    "block_frame s (Strategy k) = Inr df"
    "matrixes_of_frame ext s0 df ms"
    "list_all block_matrix_call cs"
    "s' = s\<lparr>frames := (frames s)(next_frame s := df), next_frame := Suc (next_frame s),
            calls := calls s @ cs,
            report := update_block (Strategy k) (\<lambda>b. b\<lparr>prediction_matrixes := Some ms\<rparr>)
                        (report s)\<rparr>"
proof -
  from assms(1) obtain a s1 where
    sf: "strategy_frame k s = (Inr a, s1)"
    and pm: "prediction_matrixes_for ext (Strategy k) a s1 = (Inr (), s')"
    by (auto simp: then_do_Inr)
  from sf obtain b pred df where
    b: "lookup_block (Strategy k) (report s) = Inr b"
    and g: "getitem_column (((frames s)(next_frame s := frames s (dataframe_test (report s))))
        (result b)) ''pred'' = Inr pred"
    and st: "setitem_column (frames s (dataframe_test (report s))) ''pred'' pred = Inr df"
    and a: "a = next_frame s"
    and s1: "s1 = s\<lparr>frames := (frames s)(next_frame s := df), next_frame := Suc (next_frame s)\<rparr>"
    by (rule strategy_frame_Inr)
  have "result b < next_frame s"
    using assms(2) b by (rule valid_refs_result)
  with g have g': "getitem_column (frames s (result b)) ''pred'' = Inr pred" by simp
  have bf: "block_frame s (Strategy k) = Inr df"
    by (simp add: block_frame_def b strategy_df_def g' st)
  from pm obtain b' ms cs where
    "matrixes_of_frame ext s0 (frames s1 a) ms" "list_all block_matrix_call cs"
    "s' = s1\<lparr>calls := calls s1 @ cs,
            report := update_block (Strategy k) (\<lambda>b. b\<lparr>prediction_matrixes := Some ms\<rparr>)
                        (report s1)\<rparr>"
    by (rule prediction_matrixes_for_Inr[where ?s0.0 = s0])
  then show thesis
    using b bf by (intro that[of b df ms cs]) (simp_all add: s1 a)
qed

subsection \<open>The curve of a block\<close>

lemma set_split_and_curve:
  "(\<lambda>b. b\<lparr>precision_recall_curve := x\<rparr>) \<circ> (\<lambda>b. b\<lparr>split := None\<rparr>)
   = (\<lambda>b :: 'd block. b\<lparr>split := None, precision_recall_curve := x\<rparr>)"
  by (simp add: fun_eq_iff)

lemma precision_recall_for_Inr:
  assumes "precision_recall_for ext t s = (Inr (), s')"
  obtains b sp img where
    "lookup_block t (report s) = Inr b" "split b = Some sp" "image_artifact img"
    "s' = s\<lparr>calls := calls s @ curve_calls,
            report := update_block t (\<lambda>b. b\<lparr>split := None, precision_recall_curve := Some img\<rparr>)
                        (report s)\<rparr>"
proof -
  from assms obtain sp s1 imgdata where
    p: "pop_split t s = (Inr sp, s1)"
    and s': "s' = s1\<lparr>report := update_block t
                        (\<lambda>b. b\<lparr>precision_recall_curve := Some (to_img imgdata)\<rparr>) (report s1),
                  calls := calls s1 @ curve_calls\<rparr>"
    by (auto simp: precision_recall_for_def then_do_Inr yellowbrick_to_img_def external_Inr
        succeed_Inr set_in_block_Inr curve_calls_def)
  from p obtain b where
    b: "lookup_block t (report s) = Inr b" "split b = Some sp"
    and s1: "s1 = s\<lparr>report := update_block t (\<lambda>b. b\<lparr>split := None\<rparr>) (report s)\<rparr>"
    by (auto simp: pop_split_Inr)
  from s' have "s' = s\<lparr>calls := calls s @ curve_calls,
            report := update_block t (\<lambda>b. b\<lparr>split := None,
                          precision_recall_curve := Some (to_img imgdata)\<rparr>) (report s)\<rparr>"
    by (simp add: s1 update_block_compose set_split_and_curve)
  then show thesis
    using b image_artifact_to_img[of imgdata] by (intro that[of b sp "to_img imgdata"])
qed

subsection \<open>References stay valid\<close>

lemma store_kept_refl: "store_kept s s"
  by (simp add: store_kept_def)

lemma store_kept_trans: "store_kept s s1 \<Longrightarrow> store_kept s1 s2 \<Longrightarrow> store_kept s s2"
  by (auto simp: store_kept_def)

lemma valid_refs_step:
  assumes "valid_refs s" "next_frame s \<le> next_frame s1"
    and "report s1 = update_block t f (report s)" and "\<And>b. result (f b) = result b"
  shows "valid_refs s1"
proof (cases t)
  case Baseline
  then show ?thesis
    using assms by (auto simp: valid_refs_def update_block_def list_all_iff)
next
  case (Strategy k)
  have "list_all (\<lambda>e. result (snd e) < next_frame s1)
          (AList.map_entry k f (strategy_classifications (report s)))"
    using assms(1,2,4) by (intro list_all_map_entry) (auto simp: valid_refs_def list_all_iff)
  then show ?thesis
    using assms Strategy by (auto simp: valid_refs_def update_block_def)
qed

lemma block_frame_kept:
  assumes "store_kept s s1" "valid_refs s"
    and "lookup_block t (report s1) = lookup_block t (report s)"
    and "dataframe_test (report s1) = dataframe_test (report s)"
  shows "block_frame s1 t = block_frame s t"
proof (cases t)
  case Baseline
  then have "baseline (report s1) = baseline (report s)"
    using assms(3) by (simp add: lookup_block_def)
  then show ?thesis
    using assms(1,2) Baseline by (simp add: block_frame_def store_kept_def valid_refs_def)
next
  case (Strategy k)
  show ?thesis
  proof (cases "lookup_block t (report s)")
    case (Inl e)
    then show ?thesis using assms(3) Strategy by (simp add: block_frame_def)
  next
    case (Inr b)
    have "result b < next_frame s" using assms(2) Inr by (rule valid_refs_result)
    moreover have "dataframe_test (report s) < next_frame s"
      using assms(2) by (simp add: valid_refs_def)
    ultimately show ?thesis
      using assms(1,3,4) Inr Strategy by (simp add: block_frame_def store_kept_def)
  qed
qed

subsection \<open>The loop over the strategies: matrixes\<close>

lemma matrix_loop_Inr:
  "for_each ks (\<lambda>k. then_do (strategy_frame k)
       (\<lambda>a. prediction_matrixes_for ext (Strategy k) a)) s = (Inr (), s') \<Longrightarrow>
   distinct ks \<Longrightarrow> valid_refs s \<Longrightarrow>
   store_kept s s' \<and> valid_refs s'
   \<and> dataframe_modified (report s') = dataframe_modified (report s)
   \<and> dataframe_test (report s') = dataframe_test (report s)
   \<and> report_missing_matrix (report s') = report_missing_matrix (report s)
   \<and> map fst (strategy_classifications (report s')) = map fst (strategy_classifications (report s))
   \<and> (\<forall>t. t \<notin> Strategy ` set ks \<longrightarrow> lookup_block t (report s') = lookup_block t (report s))
   \<and> (\<forall>k \<in> set ks. \<exists>b df ms.
         lookup_block (Strategy k) (report s) = Inr b
         \<and> block_frame s (Strategy k) = Inr df
         \<and> matrixes_of_frame ext s0 df ms
         \<and> lookup_block (Strategy k) (report s') = Inr (b\<lparr>prediction_matrixes := Some ms\<rparr>))
   \<and> (\<exists>cs. calls s' = calls s @ cs \<and> list_all block_matrix_call cs)"
proof (induction ks arbitrary: s)
  case Nil
  then show ?case by (simp add: store_kept_refl)
next
  case (Cons k ks)
  let ?body = "\<lambda>k. then_do (strategy_frame k) (\<lambda>a. prediction_matrixes_for ext (Strategy k) a)"
  from Cons.prems(1) obtain s1 where
    step: "?body k s = (Inr (), s1)" and rest: "for_each ks ?body s1 = (Inr (), s')"
    by (auto split: prod.splits sum.splits)
  from step Cons.prems(3) obtain b df ms cs where
    b: "lookup_block (Strategy k) (report s) = Inr b"
    and bf: "block_frame s (Strategy k) = Inr df"
    and ms: "matrixes_of_frame ext s0 df ms"
    and cs: "list_all block_matrix_call cs"
    and s1: "s1 = s\<lparr>frames := (frames s)(next_frame s := df), next_frame := Suc (next_frame s),
            calls := calls s @ cs,
            report := update_block (Strategy k) (\<lambda>b. b\<lparr>prediction_matrixes := Some ms\<rparr>)
                        (report s)\<rparr>"
    by (rule strategy_step_Inr[where ?s0.0 = s0])
  have k1: "store_kept s s1" by (simp add: s1 store_kept_def)
  have v1: "valid_refs s1"
    using Cons.prems(3)
    by (rule valid_refs_step[where t = "Strategy k"
          and f = "\<lambda>b. b\<lparr>prediction_matrixes := Some ms\<rparr>"]) (simp_all add: s1)
  have r1: "report s1 = update_block (Strategy k) (\<lambda>b. b\<lparr>prediction_matrixes := Some ms\<rparr>) (report s)"
    by (simp add: s1)
  have other1: "lookup_block t (report s1) = lookup_block t (report s)" if "t \<noteq> Strategy k" for t
    using that by (simp add: r1 lookup_update_other)
  have same1: "lookup_block (Strategy k) (report s1) = Inr (b\<lparr>prediction_matrixes := Some ms\<rparr>)"
    using b by (simp add: r1 lookup_update_same)
  have t1: "dataframe_test (report s1) = dataframe_test (report s)"
    by (simp add: r1 update_block_fields)
  from Cons.prems(2) have d: "distinct ks" and nk: "k \<notin> set ks" by simp_all
  note IH = Cons.IH[OF rest d v1]
  have A: "store_kept s s'" using k1 IH store_kept_trans by blast
  have B: "valid_refs s'" using IH by blast
  have C: "dataframe_modified (report s') = dataframe_modified (report s)"
    "dataframe_test (report s') = dataframe_test (report s)"
    "report_missing_matrix (report s') = report_missing_matrix (report s)"
    "map fst (strategy_classifications (report s')) = map fst (strategy_classifications (report s))"
    using IH by (simp_all add: r1 update_block_fields)
  have D: "lookup_block t (report s') = lookup_block t (report s)"
    if "t \<notin> Strategy ` set (k # ks)" for t
  proof -
    from that have "t \<notin> Strategy ` set ks" "t \<noteq> Strategy k" by auto
    then show ?thesis using IH other1 by simp
  qed
  have E: "\<exists>b df ms.
         lookup_block (Strategy k') (report s) = Inr b
         \<and> block_frame s (Strategy k') = Inr df
         \<and> matrixes_of_frame ext s0 df ms
         \<and> lookup_block (Strategy k') (report s') = Inr (b\<lparr>prediction_matrixes := Some ms\<rparr>)"
    if "k' \<in> set (k # ks)" for k'
  proof (cases "k' = k")
    case True
    have "Strategy k \<notin> Strategy ` set ks" using nk by auto
    then have "lookup_block (Strategy k) (report s') = lookup_block (Strategy k) (report s1)"
      using IH by blast
    then show ?thesis
      using True b bf ms same1 by (intro exI[of _ b] exI[of _ df] exI[of _ ms]) simp
  next
    case False
    then have mem: "k' \<in> set ks" using that by simp
    then obtain b' df' ms' where
      e: "lookup_block (Strategy k') (report s1) = Inr b'"
        "block_frame s1 (Strategy k') = Inr df'"
        "matrixes_of_frame ext s0 df' ms'"
        "lookup_block (Strategy k') (report s') = Inr (b'\<lparr>prediction_matrixes := Some ms'\<rparr>)"
      using IH by blast
    have o: "lookup_block (Strategy k') (report s1) = lookup_block (Strategy k') (report s)"
      using False by (intro other1) simp
    have "block_frame s1 (Strategy k') = block_frame s (Strategy k')"
      using k1 Cons.prems(3) o t1 by (rule block_frame_kept)
    then have "block_frame s (Strategy k') = Inr df'" using e(2) by simp
    moreover have "lookup_block (Strategy k') (report s) = Inr b'" using e(1) o by simp
    ultimately show ?thesis
      using e(3,4) by (intro exI[of _ b'] exI[of _ df'] exI[of _ ms']) simp
  qed
  have F: "\<exists>cs. calls s' = calls s @ cs \<and> list_all block_matrix_call cs"
  proof -
    from IH obtain cs' where "calls s' = calls s1 @ cs'" "list_all block_matrix_call cs'" by blast
    then have "calls s' = calls s @ (cs @ cs')" "list_all block_matrix_call (cs @ cs')"
      using cs by (simp_all add: s1)
    then show ?thesis by blast
  qed
  show ?case using A B C D E F by blast
qed

subsection \<open>The loop over the strategies: curves\<close>

lemma curve_loop_Inr:
  "for_each ks (\<lambda>k. precision_recall_for ext (Strategy k)) s = (Inr (), s') \<Longrightarrow>
   distinct ks \<Longrightarrow>
   frames s' = frames s \<and> next_frame s' = next_frame s
   \<and> dataframe_modified (report s') = dataframe_modified (report s)
   \<and> dataframe_test (report s') = dataframe_test (report s)
   \<and> report_missing_matrix (report s') = report_missing_matrix (report s)
   \<and> map fst (strategy_classifications (report s')) = map fst (strategy_classifications (report s))
   \<and> (\<forall>t. t \<notin> Strategy ` set ks \<longrightarrow> lookup_block t (report s') = lookup_block t (report s))
   \<and> (\<forall>k \<in> set ks. \<exists>b sp img.
         lookup_block (Strategy k) (report s) = Inr b \<and> split b = Some sp \<and> image_artifact img
         \<and> lookup_block (Strategy k) (report s')
             = Inr (b\<lparr>split := None, precision_recall_curve := Some img\<rparr>))
   \<and> calls s' = calls s @ concat (replicate (length ks) curve_calls)"
proof (induction ks arbitrary: s)
  case Nil
  then show ?case by simp
next
  case (Cons k ks)
  let ?body = "\<lambda>k. precision_recall_for ext (Strategy k)"
  from Cons.prems(1) obtain s1 where
    step: "?body k s = (Inr (), s1)" and rest: "for_each ks ?body s1 = (Inr (), s')"
    by (auto split: prod.splits sum.splits)
  from step obtain b sp img where
    b: "lookup_block (Strategy k) (report s) = Inr b" "split b = Some sp" "image_artifact img"
    and s1: "s1 = s\<lparr>calls := calls s @ curve_calls,
            report := update_block (Strategy k)
                        (\<lambda>b. b\<lparr>split := None, precision_recall_curve := Some img\<rparr>) (report s)\<rparr>"
    by (rule precision_recall_for_Inr)
  let ?f = "\<lambda>b :: 'd block. b\<lparr>split := None, precision_recall_curve := Some img\<rparr>"
  have r1: "report s1 = update_block (Strategy k) ?f (report s)" by (simp add: s1)
  have other1: "lookup_block t (report s1) = lookup_block t (report s)" if "t \<noteq> Strategy k" for t
    using that by (simp add: r1 lookup_update_other)
  have same1: "lookup_block (Strategy k) (report s1) = Inr (?f b)"
    using b(1) by (simp add: r1 lookup_update_same)
  from Cons.prems(2) have d: "distinct ks" and nk: "k \<notin> set ks" by simp_all
  note IH = Cons.IH[OF rest d]
  have A: "frames s' = frames s" "next_frame s' = next_frame s"
    using IH by (simp_all add: s1)
  have C: "dataframe_modified (report s') = dataframe_modified (report s)"
    "dataframe_test (report s') = dataframe_test (report s)"
    "report_missing_matrix (report s') = report_missing_matrix (report s)"
    "map fst (strategy_classifications (report s')) = map fst (strategy_classifications (report s))"
    using IH by (simp_all add: r1 update_block_fields)
  have D: "lookup_block t (report s') = lookup_block t (report s)"
    if "t \<notin> Strategy ` set (k # ks)" for t
  proof -
    from that have "t \<notin> Strategy ` set ks" "t \<noteq> Strategy k" by auto
    then show ?thesis using IH other1 by simp
  qed
  have E: "\<exists>b sp img.
         lookup_block (Strategy k') (report s) = Inr b \<and> split b = Some sp \<and> image_artifact img
         \<and> lookup_block (Strategy k') (report s')
             = Inr (b\<lparr>split := None, precision_recall_curve := Some img\<rparr>)"
    if "k' \<in> set (k # ks)" for k'
  proof (cases "k' = k")
    case True
    have "Strategy k \<notin> Strategy ` set ks" using nk by auto
    then have "lookup_block (Strategy k) (report s') = lookup_block (Strategy k) (report s1)"
      using IH by blast
    then show ?thesis
      using True b same1 by (intro exI[of _ b] exI[of _ sp] exI[of _ img]) simp
  next
    case False
    then have mem: "k' \<in> set ks" using that by simp
    then obtain b' sp' img' where
      e: "lookup_block (Strategy k') (report s1) = Inr b'" "split b' = Some sp'"
        "image_artifact img'"
        "lookup_block (Strategy k') (report s')
           = Inr (b'\<lparr>split := None, precision_recall_curve := Some img'\<rparr>)"
      using IH by blast
    have o: "lookup_block (Strategy k') (report s1) = lookup_block (Strategy k') (report s)"
      using False by (intro other1) simp
    then have "lookup_block (Strategy k') (report s) = Inr b'" using e(1) by simp
    then show ?thesis
      using e(2,3,4) by (intro exI[of _ b'] exI[of _ sp'] exI[of _ img']) simp
  qed
  have F: "calls s' = calls s @ concat (replicate (length (k # ks)) curve_calls)"
    using IH by (simp add: s1)
  show ?case using A C D E F by blast
qed

subsection \<open>The two phases\<close>

lemma try_pass_Inr: "try_pass m s = (Inr u, s') \<longleftrightarrow> s' = snd (m s)"
  by (auto simp: try_pass_def)

lemma lookup_block_missing_matrix:
  "lookup_block t (r\<lparr>report_missing_matrix := x\<rparr>) = lookup_block t r"
  by (cases t) (simp_all add: lookup_block_def)

lemma baseline_not_strategy: "Baseline \<notin> Strategy ` A"
  by auto


lemma matrix_phase_Inr:
  assumes "matrix_phase ext s = (Inr (), s1)" "well_formed s"
  shows "store_kept s s1"
    and "dataframe_modified (report s1) = dataframe_modified (report s)"
    and "dataframe_test (report s1) = dataframe_test (report s)"
    and "map fst (strategy_classifications (report s1)) = map fst (strategy_classifications (report s))"
    and "\<exists>img. fst (missing_matrix ext (frames s (dataframe_modified (report s))) False s0) = Inr img
           \<and> report_missing_matrix (report s1) = Some img"
    and "\<And>t b. lookup_block t (report s) = Inr b \<Longrightarrow>
           \<exists>df ms. block_frame s t = Inr df \<and> matrixes_of_frame ext s0 df ms
             \<and> lookup_block t (report s1) = Inr (b\<lparr>prediction_matrixes := Some ms\<rparr>)"
    and "\<exists>cs. calls s1 = calls s @ [StyleUse ''default'', StyleUse (mplstyle ext),
               MsnoMatrix (frames s (dataframe_modified (report s))) False, Savefig, CloseFigure] @ cs
           \<and> list_all block_matrix_call cs"
proof -
  let ?dfm = "frames s (dataframe_modified (report s))"
  let ?sB = "s\<lparr>calls := calls s @ [StyleUse ''default'', StyleUse (mplstyle ext)]\<rparr>"
  let ?body = "\<lambda>k. then_do (strategy_frame k) (\<lambda>a. prediction_matrixes_for ext (Strategy k) a)"
  from assms(1) obtain img sC sE where
    mm: "missing_matrix ext ?dfm False ?sB = (Inr img, sC)"
    and pm: "prediction_matrixes_for ext Baseline
               (result (baseline (report sC)))
               (sC\<lparr>report := (report sC)\<lparr>report_missing_matrix := Some img\<rparr>\<rparr>) = (Inr (), sE)"
    and loop: "for_each (map fst (strategy_classifications (report sE))) ?body sE = (Inr (), s1)"
    by (auto simp: matrix_phase_def then_do_Inr try_pass_Inr external_def external_Inr
        get_report_Inr read_frame_Inr)
  note sC = missing_matrix_Inr(1)[OF mm] and img = missing_matrix_Inr(2)[OF mm, of s0]
  let ?sD = "sC\<lparr>report := (report sC)\<lparr>report_missing_matrix := Some img\<rparr>\<rparr>"
  from pm obtain b0 ms0 cs0 where
    ms0: "matrixes_of_frame ext s0 (frames ?sD (result (baseline (report sC)))) ms0"
    and cs0: "list_all block_matrix_call cs0"
    and sE: "sE = ?sD\<lparr>calls := calls ?sD @ cs0,
            report := update_block Baseline (\<lambda>b. b\<lparr>prediction_matrixes := Some ms0\<rparr>) (report ?sD)\<rparr>"
    by (rule prediction_matrixes_for_Inr[where ?s0.0 = s0])
  have rE: "report sE = update_block Baseline (\<lambda>b. b\<lparr>prediction_matrixes := Some ms0\<rparr>)
              ((report s)\<lparr>report_missing_matrix := Some img\<rparr>)"
    by (simp add: sE sC)
  have fE: "frames sE = frames s" "next_frame sE = next_frame s"
    by (simp_all add: sE sC)
  have kE: "map fst (strategy_classifications (report sE)) = map fst (strategy_classifications (report s))"
    by (simp add: rE update_block_fields)
  have tE: "dataframe_test (report sE) = dataframe_test (report s)"
    "dataframe_modified (report sE) = dataframe_modified (report s)"
    "report_missing_matrix (report sE) = Some img"
    by (simp_all add: rE update_block_fields)
  have vs: "valid_refs s" and ds: "distinct (map fst (strategy_classifications (report s)))"
    using assms(2) by (simp_all add: well_formed_def)
  have vE: "valid_refs sE"
    using vs by (simp add: valid_refs_def fE rE update_block_def)
  have keptE: "store_kept s sE" by (simp add: store_kept_def fE)
  have lE: "lookup_block (Strategy k) (report sE) = lookup_block (Strategy k) (report s)" for k
    by (simp add: rE lookup_update_other lookup_block_missing_matrix)
  have l0: "lookup_block Baseline (report sE)
              = Inr ((baseline (report s))\<lparr>prediction_matrixes := Some ms0\<rparr>)"
    by (simp add: rE lookup_block_def update_block_def)
  have dE: "distinct (map fst (strategy_classifications (report sE)))"
    using ds kE by simp
  note L = matrix_loop_Inr[OF loop dE vE, of s0]
  show "store_kept s s1" using L keptE store_kept_trans by blast
  show "dataframe_modified (report s1) = dataframe_modified (report s)"
    using L tE by simp
  show "dataframe_test (report s1) = dataframe_test (report s)"
    using L tE by simp
  show "map fst (strategy_classifications (report s1)) = map fst (strategy_classifications (report s))"
    using L kE by simp
  show "\<exists>img. fst (missing_matrix ext ?dfm False s0) = Inr img
           \<and> report_missing_matrix (report s1) = Some img"
    using L tE img by (intro exI[of _ img]) simp
  show "\<exists>df ms. block_frame s t = Inr df \<and> matrixes_of_frame ext s0 df ms
             \<and> lookup_block t (report s1) = Inr (b\<lparr>prediction_matrixes := Some ms\<rparr>)"
    if t: "lookup_block t (report s) = Inr b" for t b
  proof (cases t)
    case Baseline
    then have b: "b = baseline (report s)" using t by (simp add: lookup_block_def)
    have "lookup_block Baseline (report s1) = lookup_block Baseline (report sE)"
      using L baseline_not_strategy by blast
    moreover have "matrixes_of_frame ext s0 (frames s (result (baseline (report s)))) ms0"
      using ms0 by (simp add: sC)
    ultimately show ?thesis
      using Baseline b l0
      by (intro exI[of _ "frames s (result (baseline (report s)))"] exI[of _ ms0])
         (simp add: block_frame_def)
  next
    case (Strategy k)
    from t Strategy have "k \<in> set (map fst (strategy_classifications (report s)))"
      using lookup_strategy_iff[of k "report s"] by blast
    then have "k \<in> set (map fst (strategy_classifications (report sE)))" using kE by simp
    with L obtain b' df ms where
      e: "lookup_block (Strategy k) (report sE) = Inr b'"
        "block_frame sE (Strategy k) = Inr df" "matrixes_of_frame ext s0 df ms"
        "lookup_block (Strategy k) (report s1) = Inr (b'\<lparr>prediction_matrixes := Some ms\<rparr>)"
      by blast
    have "b' = b" using e(1) t Strategy lE by simp
    moreover have "block_frame sE (Strategy k) = block_frame s (Strategy k)"
      using keptE vs lE tE(1) by (rule block_frame_kept)
    ultimately show ?thesis
      using e Strategy by (intro exI[of _ df] exI[of _ ms]) simp
  qed
  show "\<exists>cs. calls s1 = calls s @ [StyleUse ''default'', StyleUse (mplstyle ext),
               MsnoMatrix ?dfm False, Savefig, CloseFigure] @ cs
           \<and> list_all block_matrix_call cs"
  proof -
    from L obtain cs where "calls s1 = calls sE @ cs" "list_all block_matrix_call cs" by blast
    then show ?thesis
      using cs0 by (intro exI[of _ "cs0 @ cs"]) (simp add: sE sC)
  qed
qed

lemma curve_phase_Inr:
  assumes "curve_phase ext s = (Inr (), s')"
    and "distinct (map fst (strategy_classifications (report s)))"
  shows "frames s' = frames s" "next_frame s' = next_frame s"
    and "dataframe_modified (report s') = dataframe_modified (report s)"
    and "dataframe_test (report s') = dataframe_test (report s)"
    and "report_missing_matrix (report s') = report_missing_matrix (report s)"
    and "map fst (strategy_classifications (report s')) = map fst (strategy_classifications (report s))"
    and "\<And>t b. lookup_block t (report s) = Inr b \<Longrightarrow>
           \<exists>sp img. split b = Some sp \<and> image_artifact img
             \<and> lookup_block t (report s') = Inr (b\<lparr>split := None, precision_recall_curve := Some img\<rparr>)"
    and "calls s' = calls s
           @ concat (replicate (Suc (length (strategy_classifications (report s)))) curve_calls)"
proof -
  let ?body = "\<lambda>k. precision_recall_for ext (Strategy k)"
  from assms(1) obtain s1 where
    first: "precision_recall_for ext Baseline s = (Inr (), s1)"
    and loop: "for_each (map fst (strategy_classifications (report s1))) ?body s1 = (Inr (), s')"
    by (auto simp: curve_phase_def then_do_Inr get_report_Inr)
  from first obtain b0 sp0 img0 where
    b0: "lookup_block Baseline (report s) = Inr b0" "split b0 = Some sp0" "image_artifact img0"
    and s1: "s1 = s\<lparr>calls := calls s @ curve_calls,
            report := update_block Baseline
                        (\<lambda>b. b\<lparr>split := None, precision_recall_curve := Some img0\<rparr>) (report s)\<rparr>"
    by (rule precision_recall_for_Inr)
  have r1: "report s1 = update_block Baseline
              (\<lambda>b. b\<lparr>split := None, precision_recall_curve := Some img0\<rparr>) (report s)"
    by (simp add: s1)
  have k1: "map fst (strategy_classifications (report s1)) = map fst (strategy_classifications (report s))"
    by (simp add: r1 update_block_fields)
  have l1: "lookup_block (Strategy k) (report s1) = lookup_block (Strategy k) (report s)" for k
    by (simp add: r1 lookup_update_other)
  have l0: "lookup_block Baseline (report s1)
              = Inr (b0\<lparr>split := None, precision_recall_curve := Some img0\<rparr>)"
    using b0(1) by (simp add: r1 lookup_update_same)
  have d1: "distinct (map fst (strategy_classifications (report s1)))"
    using assms(2) k1 by simp
  note L = curve_loop_Inr[OF loop d1]
  show "frames s' = frames s" "next_frame s' = next_frame s"
    using L by (simp_all add: s1)
  show "dataframe_modified (report s') = dataframe_modified (report s)"
    "dataframe_test (report s') = dataframe_test (report s)"
    "report_missing_matrix (report s') = report_missing_matrix (report s)"
    "map fst (strategy_classifications (report s')) = map fst (strategy_classifications (report s))"
    using L by (simp_all add: r1 update_block_fields)
  show "\<exists>sp img. split b = Some sp \<and> image_artifact img
             \<and> lookup_block t (report s') = Inr (b\<lparr>split := None, precision_recall_curve := Some img\<rparr>)"
    if t: "lookup_block t (report s) = Inr b" for t b
  proof (cases t)
    case Baseline
    have "lookup_block Baseline (report s') = lookup_block Baseline (report s1)"
      using L baseline_not_strategy by blast
    then show ?thesis
      using Baseline t b0 l0 by (intro exI[of _ sp0] exI[of _ img0]) simp
  next
    case (Strategy k)
    from t Strategy have "k \<in> set (map fst (strategy_classifications (report s)))"
      using lookup_strategy_iff[of k "report s"] by blast
    then have "k \<in> set (map fst (strategy_classifications (report s1)))" using k1 by simp
    with L obtain b' sp img where
      e: "lookup_block (Strategy k) (report s1) = Inr b'" "split b' = Some sp" "image_artifact img"
        "lookup_block (Strategy k) (report s')
           = Inr (b'\<lparr>split := None, precision_recall_curve := Some img\<rparr>)"
      by blast
    have "b' = b" using e(1) t Strategy l1 by simp
    then show ?thesis
      using e Strategy by (intro exI[of _ sp] exI[of _ img]) simp
  qed
  have "length (map fst (strategy_classifications (report s1)))
          = length (strategy_classifications (report s))"
    using k1 by (metis length_map)
  then show "calls s' = calls s
           @ concat (replicate (Suc (length (strategy_classifications (report s)))) curve_calls)"
    using L by (simp add: s1)
qed

subsection \<open>The whole pipeline, when it returns\<close>

lemma generate_Inr:
  assumes "generate_report_visualizations ext s = (Inr r, s')" "well_formed s"
  shows "r = report s'"
    and "store_kept s s'"
    and "map fst (strategy_classifications r) = map fst (strategy_classifications (report s))"
    and "\<exists>img. fst (missing_matrix ext (frames s (dataframe_modified (report s))) False s0) = Inr img
           \<and> report_missing_matrix r = Some img"
    and "\<And>t b. lookup_block t (report s) = Inr b \<Longrightarrow>
           \<exists>df ms sp img. block_frame s t = Inr df \<and> matrixes_of_frame ext s0 df ms
             \<and> split b = Some sp \<and> image_artifact img
             \<and> lookup_block t r = Inr (b\<lparr>split := None, prediction_matrixes := Some ms,
                                           precision_recall_curve := Some img\<rparr>)"
    and "\<exists>cs. calls s' = calls s @ [StyleUse ''default'', StyleUse (mplstyle ext),
               MsnoMatrix (frames s (dataframe_modified (report s))) False, Savefig, CloseFigure]
               @ cs @ concat (replicate (Suc (length (strategy_classifications (report s)))) curve_calls)
           \<and> list_all block_matrix_call cs"
proof -
  from assms(1) obtain s1 where
    m: "matrix_phase ext s = (Inr (), s1)" and c: "curve_phase ext s1 = (Inr (), s')"
    and r: "r = report s'"
    by (auto simp: generate_report_visualizations_def then_do_Inr get_report_Inr)
  note M = matrix_phase_Inr[OF m assms(2)]
  have d1: "distinct (map fst (strategy_classifications (report s1)))"
    using assms(2) M(4) by (simp add: well_formed_def)
  note C = curve_phase_Inr[OF c d1]
  show "r = report s'" by (rule r)
  show "store_kept s s'"
    using M(1) C(1,2) by (simp add: store_kept_def)
  show "map fst (strategy_classifications r) = map fst (strategy_classifications (report s))"
    using M(4) C(6) r by simp
  show "\<exists>img. fst (missing_matrix ext (frames s (dataframe_modified (report s))) False s0) = Inr img
           \<and> report_missing_matrix r = Some img"
    using M(5)[where ?s0.0 = s0] C(5) r by simp
  show "\<exists>df ms sp img. block_frame s t = Inr df \<and> matrixes_of_frame ext s0 df ms
             \<and> split b = Some sp \<and> image_artifact img
             \<and> lookup_block t r = Inr (b\<lparr>split := None, prediction_matrixes := Some ms,
                                           precision_recall_curve := Some img\<rparr>)"
    if t: "lookup_block t (report s) = Inr b" for t b
  proof -
    from M(6)[where ?s0.0 = s0, OF t] obtain df ms where
      e: "block_frame s t = Inr df" "matrixes_of_frame ext s0 df ms"
        "lookup_block t (report s1) = Inr (b\<lparr>prediction_matrixes := Some ms\<rparr>)"
      by blast
    from C(7)[OF e(3)] obtain sp img where
      f: "split (b\<lparr>prediction_matrixes := Some ms\<rparr>) = Some sp" "image_artifact img"
        "lookup_block t (report s')
           = Inr (b\<lparr>prediction_matrixes := Some ms\<rparr>\<lparr>split := None, precision_recall_curve := Some img\<rparr>)"
      by blast
    show ?thesis
      using e(1,2) f r by (intro exI[of _ df] exI[of _ ms] exI[of _ sp] exI[of _ img]) simp
  qed
  show "\<exists>cs. calls s' = calls s @ [StyleUse ''default'', StyleUse (mplstyle ext),
               MsnoMatrix (frames s (dataframe_modified (report s))) False, Savefig, CloseFigure]
               @ cs @ concat (replicate (Suc (length (strategy_classifications (report s)))) curve_calls)
           \<and> list_all block_matrix_call cs"
  proof -
    from M(7) obtain cs where
      cs: "calls s1 = calls s @ [StyleUse ''default'', StyleUse (mplstyle ext),
               MsnoMatrix (frames s (dataframe_modified (report s))) False, Savefig, CloseFigure] @ cs"
        "list_all block_matrix_call cs"
      by blast
    have "length (strategy_classifications (report s1)) = length (strategy_classifications (report s))"
      using M(4) by (metis length_map)
    then show ?thesis
      using cs C(8) by (intro exI[of _ cs]) simp
  qed
qed

lemma lookup_same_keys:
  assumes "map fst (strategy_classifications r') = map fst (strategy_classifications r)"
    and "lookup_block t r' = Inr b'"
  shows "\<exists>b. lookup_block t r = Inr b"
proof (cases t)
  case Baseline
  then show ?thesis by (simp add: lookup_block_def)
next
  case (Strategy k)
  then have "k \<in> set (map fst (strategy_classifications r'))"
    using assms(2) lookup_strategy_iff[of k r'] by blast
  then show ?thesis
    using assms(1) Strategy lookup_strategy_iff[of k r] by simp
qed

lemma matrixes_of_frame_length:
  assumes "matrixes_of_frame ext s df ms"
  obtains pairs where "combinations df = Inr pairs" "length ms = 1 + length pairs"
    "original_matrix ext s df (ms ! 0)"
  using assms
  by (auto simp: matrixes_of_frame_def list_all2_lengthD split: sum.splits list.splits)

section \<open>The small report\<close>

lemmas toy_defs = toy_state_def toy_report_def toy_split_def toy_externals_def
  example_frame_def modified_frame_def test_frame_def imputed_frame_def draw_frame_def

lemmas action_defs = then_do_def external_def succeed_def lift_def try_pass_def get_report_def
  read_frame_def copy_frame_def setitem_column_at_def get_block_def set_in_block_def
  append_matrix_def pop_split_def lookup_block_def update_block_def

lemmas pipeline_defs = generate_report_visualizations_def matrix_phase_def curve_phase_def
  prediction_matrixes_for_def pair_matrix_def strategy_frame_def precision_recall_for_def
  missing_matrix_def yellowbrick_to_img_def pair_name_def str_cell_def

lemmas pandas_defs = combinations_def reorder_def pair_mask_def iloc_column_def
  cell_from_right_def actual_def predicted_def cell_eq_def cell_ne_def series_ne_def
  series_eq_scalar_def mask_and_def mask_not_def getitem_mask_def append_frame_def
  iloc_last_two_def drop_duplicates_def getitem_column_def setitem_column_def align_def

lemma toy_run: "fst (generate_report_visualizations toy_externals toy_state) = Inr toy_assembled"
  by (simp add: pipeline_defs action_defs pandas_defs toy_defs toy_assembled_def)

lemma toy_well_formed: "well_formed toy_state"
  by (simp add: well_formed_def valid_refs_def toy_state_def toy_report_def)

lemma toy_run_pair:
  "generate_report_visualizations toy_externals toy_state
     = (Inr toy_assembled, snd (generate_report_visualizations toy_externals toy_state))"
  using toy_run by (metis prod.collapse)

section \<open>The assembled report\<close>

text \<open>
  C1. When the pipeline returns, every block of the report it returns (the baseline and
  every strategy) has no \<open>split\<close>, and its \<open>prediction_matrixes\<close> hold one entry more
  than the frame of the block has error pairs; the first entry is named
  \<^verbatim>\<open>Original Dataset\<close> and holds the matrix of the frame as it is.
\<close>

theorem assembled_block_matrixes:
  assumes "generate_report_visualizations ext s = (Inr r, s')" and "well_formed s"
    and "lookup_block t r = Inr b"
  shows "split b = None
     \<and> (\<exists>df pairs ms. block_frame s t = Inr df \<and> combinations df = Inr pairs
          \<and> prediction_matrixes b = Some ms \<and> length ms = 1 + length pairs
          \<and> original_matrix ext s df (ms ! 0))"
proof -
  note G = generate_Inr[OF assms(1,2)]
  from lookup_same_keys[OF G(3) assms(3)] obtain b0 where
    b0: "lookup_block t (report s) = Inr b0" by blast
  from G(5)[where ?s0.0 = s, OF b0] obtain df ms sp img where
    e: "block_frame s t = Inr df" "matrixes_of_frame ext s df ms"
      "lookup_block t r = Inr (b0\<lparr>split := None, prediction_matrixes := Some ms,
                                 precision_recall_curve := Some img\<rparr>)"
    by blast
  from e(3) assms(3) have b: "b = b0\<lparr>split := None, prediction_matrixes := Some ms,
                                 precision_recall_curve := Some img\<rparr>" by simp
  from e(2) obtain pairs where
    p: "combinations df = Inr pairs" "length ms = 1 + length pairs"
      "original_matrix ext s df (ms ! 0)"
    by (rule matrixes_of_frame_length)
  show ?thesis
    using e(1) p by (auto simp: b)
qed

text \<open>The theorem at the baseline of the small report: three entries for two error pairs.\<close>

theorem assembled_block_matrixes_witness:
  "generate_report_visualizations toy_externals toy_state
     = (Inr toy_assembled, snd (generate_report_visualizations toy_externals toy_state))
   \<and> well_formed toy_state
   \<and> lookup_block Baseline toy_assembled = Inr (baseline toy_assembled)
   \<and> split (baseline toy_assembled) = None
   \<and> (\<exists>pairs ms. combinations example_frame = Inr pairs
          \<and> prediction_matrixes (baseline toy_assembled) = Some ms
          \<and> length ms = 1 + length pairs
          \<and> original_matrix toy_externals toy_state example_frame (ms ! 0))"
proof -
  have l: "lookup_block Baseline toy_assembled = Inr (baseline toy_assembled)"
    by (simp add: lookup_block_def)
  have f: "block_frame toy_state Baseline = Inr example_frame"
    by (simp add: block_frame_def toy_state_def toy_report_def)
  from assembled_block_matrixes[OF toy_run_pair toy_well_formed l] f
  show ?thesis
    using toy_run_pair toy_well_formed l by auto
qed

lemma to_img_differs: "to_img [1, 1, 0] \<noteq> to_img [1, 0, 0]"
  by (simp add: to_img_def quote_def quote_char_def always_safe_def b64_char_def b64_alphabet_def)

text \<open>
  C5, as the code has it. For every strategy, the frame \<open>df\<close> is the test frame of the
  report with the column \<^verbatim>\<open>pred\<close> taken from the result of the strategy (not that
  result itself); the \<^verbatim>\<open>Original Dataset\<close> matrix and the matrix of every error pair
  are computed from this \<open>df\<close>, and the error pairs are extracted from the same \<open>df\<close>.
\<close>

theorem strategy_matrixes_from_test_frame:
  assumes "generate_report_visualizations ext s = (Inr r, s')" and "well_formed s"
    and "lookup_block (Strategy k) (report s) = Inr b"
  shows "\<exists>df ms b'.
           strategy_df (frames s (dataframe_test (report s))) (frames s (result b)) = Inr df
           \<and> matrixes_of_frame ext s df ms
           \<and> lookup_block (Strategy k) r = Inr b' \<and> prediction_matrixes b' = Some ms"
proof -
  note G = generate_Inr[OF assms(1,2)]
  from G(5)[where ?s0.0 = s, OF assms(3)] obtain df ms sp img where
    e: "block_frame s (Strategy k) = Inr df" "matrixes_of_frame ext s df ms"
      "lookup_block (Strategy k) r = Inr (b\<lparr>split := None, prediction_matrixes := Some ms,
                                 precision_recall_curve := Some img\<rparr>)"
    by blast
  from e(1) have "strategy_df (frames s (dataframe_test (report s))) (frames s (result b)) = Inr df"
    using assms(3) by (simp add: block_frame_def)
  then show ?thesis
    using e(2,3) by (intro exI[of _ df] exI[of _ ms] exI) auto
qed

text \<open>The theorem at the strategy of the small report.\<close>

theorem strategy_matrixes_witness:
  "generate_report_visualizations toy_externals toy_state
     = (Inr toy_assembled, snd (generate_report_visualizations toy_externals toy_state))
   \<and> well_formed toy_state
   \<and> lookup_block (Strategy ''mean'') (report toy_state)
       = Inr \<lparr>result = 3, split = Some toy_split, prediction_matrixes = None,
              precision_recall_curve = None\<rparr>
   \<and> (\<exists>ms b'. matrixes_of_frame toy_externals toy_state
                  \<lparr>columns = [''age'', ''label'', ''pred''],
                   rows = [(0, [None, Some 0, Some 0]), (1, [Some 40, Some 1, Some 1])]\<rparr> ms
         \<and> lookup_block (Strategy ''mean'') toy_assembled = Inr b'
         \<and> prediction_matrixes b' = Some ms)"
proof -
  have l: "lookup_block (Strategy ''mean'') (report toy_state)
       = Inr \<lparr>result = 3, split = Some toy_split, prediction_matrixes = None,
              precision_recall_curve = None\<rparr>"
    by (simp add: lookup_block_def toy_state_def toy_report_def)
  have f: "strategy_df (frames toy_state (dataframe_test (report toy_state))) (frames toy_state 3)
       = Inr \<lparr>columns = [''age'', ''label'', ''pred''],
                   rows = [(0, [None, Some 0, Some 0]), (1, [Some 40, Some 1, Some 1])]\<rparr>"
    by (simp add: strategy_df_def pandas_defs toy_defs)
  from strategy_matrixes_from_test_frame[OF toy_run_pair toy_well_formed l] f
  show ?thesis
    using toy_run_pair toy_well_formed l by auto
qed

text \<open>
  C5 as stated fails. The strategy of the small report has its own dataset, the frame
  at address 3, in which the missing age is filled in. The matrix the pipeline stores for
  the strategy shows a missing cell in the first row: it is the picture of the test frame,
  not of the dataset of the block, whose picture has no missing cell.
\<close>

theorem strategy_matrixes_counterexample:
  "fst (generate_report_visualizations toy_externals toy_state) = Inr toy_assembled
   \<and> lookup_block (Strategy ''mean'') toy_assembled
       = Inr \<lparr>result = 3, split = None,
              prediction_matrixes =
                Some [\<lparr>m_name = ''Original Dataset'', m_image = to_img [1, 1, 0]\<rparr>],
              precision_recall_curve = Some (to_img [2, 1, 2, 3, 4])\<rparr>
   \<and> frames toy_state 3 = imputed_frame
   \<and> fst (missing_matrix toy_externals imputed_frame True toy_state) = Inr (to_img [1, 0, 0])
   \<and> \<not> matrixes_of_frame toy_externals toy_state imputed_frame
         [\<lparr>m_name = ''Original Dataset'', m_image = to_img [1, 1, 0]\<rparr>]"
proof -
  have m: "fst (missing_matrix toy_externals imputed_frame True toy_state) = Inr (to_img [1, 0, 0])"
    by (simp add: missing_matrix_def action_defs toy_defs)
  have "\<not> original_matrix toy_externals toy_state imputed_frame
           \<lparr>m_name = ''Original Dataset'', m_image = to_img [1, 1, 0]\<rparr>"
    using to_img_differs by (simp add: original_matrix_def m)
  then have "\<not> matrixes_of_frame toy_externals toy_state imputed_frame
         [\<lparr>m_name = ''Original Dataset'', m_image = to_img [1, 1, 0]\<rparr>]"
    by (simp add: matrixes_of_frame_def split: sum.splits)
  then show ?thesis
    using toy_run m
    by (simp add: lookup_block_def toy_assembled_def toy_state_def)
qed

section \<open>The matrix of the whole report\<close>

lemma block_matrix_call_annotated:
  "list_all block_matrix_call cs \<Longrightarrow> MsnoMatrix df p \<in> set cs \<Longrightarrow> p"
  by (auto simp: list_all_iff block_matrix_call_def)

lemma no_matrix_in_curves: "MsnoMatrix df p \<notin> set (concat (replicate n curve_calls))"
  by (induction n) (auto simp: curve_calls_def)

text \<open>
  C10. When the pipeline returns, \<^verbatim>\<open>report['missing_matrix']\<close> is what
  \<open>missing_matrix\<close> returns for the modified frame of the report without the annotation
  of predictions; it is the third call of the pipeline, every later call of missingno
  asks for the annotation, and the matrixes of every block are those of
  \<open>matrixes_of_frame\<close>, which are made with the annotation.
\<close>

theorem global_matrix_without_annotation:
  assumes "generate_report_visualizations ext s = (Inr r, s')" and "well_formed s"
  shows "(\<exists>img. fst (missing_matrix ext (frames s (dataframe_modified (report s))) False s) = Inr img
            \<and> report_missing_matrix r = Some img)
     \<and> (\<exists>cs. calls s' = calls s @ [StyleUse ''default'', StyleUse (mplstyle ext),
               MsnoMatrix (frames s (dataframe_modified (report s))) False] @ cs
            \<and> (\<forall>df p. MsnoMatrix df p \<in> set cs \<longrightarrow> p))
     \<and> (\<forall>t b. lookup_block t r = Inr b \<longrightarrow>
           (\<exists>df ms. block_frame s t = Inr df \<and> matrixes_of_frame ext s df ms
              \<and> prediction_matrixes b = Some ms))"
proof -
  note G = generate_Inr[OF assms(1,2)]
  let ?n = "Suc (length (strategy_classifications (report s)))"
  have A: "\<exists>img. fst (missing_matrix ext (frames s (dataframe_modified (report s))) False s) = Inr img
            \<and> report_missing_matrix r = Some img"
    by (rule G(4))
  from G(6) obtain cs where
    cs: "calls s' = calls s @ [StyleUse ''default'', StyleUse (mplstyle ext),
               MsnoMatrix (frames s (dataframe_modified (report s))) False, Savefig, CloseFigure]
               @ cs @ concat (replicate ?n curve_calls)"
      "list_all block_matrix_call cs"
    by blast
  let ?rest = "[Savefig, CloseFigure] @ cs @ concat (replicate ?n curve_calls)"
  have "p" if "MsnoMatrix df p \<in> set ?rest" for df p
    using that block_matrix_call_annotated[OF cs(2), of df p] no_matrix_in_curves[of df p ?n]
    by auto
  then have R: "\<forall>df p. MsnoMatrix df p \<in> set ?rest \<longrightarrow> p" by blast
  have E: "calls s' = calls s @ [StyleUse ''default'', StyleUse (mplstyle ext),
               MsnoMatrix (frames s (dataframe_modified (report s))) False] @ ?rest"
    using cs(1) by simp
  have B: "\<exists>cs. calls s' = calls s @ [StyleUse ''default'', StyleUse (mplstyle ext),
               MsnoMatrix (frames s (dataframe_modified (report s))) False] @ cs
            \<and> (\<forall>df p. MsnoMatrix df p \<in> set cs \<longrightarrow> p)"
    using E R by blast
  have C: "\<exists>df ms. block_frame s t = Inr df \<and> matrixes_of_frame ext s df ms
              \<and> prediction_matrixes b = Some ms"
    if "lookup_block t r = Inr b" for t b
  proof -
    from lookup_same_keys[OF G(3) that] obtain b0 where
      b0: "lookup_block t (report s) = Inr b0" by blast
    from G(5)[where ?s0.0 = s, OF b0] that show ?thesis by auto
  qed
  show ?thesis using A B C by blast
qed

text \<open>The theorem at the small report.\<close>

theorem global_matrix_witness:
  "generate_report_visualizations toy_externals toy_state
     = (Inr toy_assembled, snd (generate_report_visualizations toy_externals toy_state))
   \<and> well_formed toy_state
   \<and> fst (missing_matrix toy_externals modified_frame False toy_state) = Inr (to_img [0, 1, 0, 1])
   \<and> report_missing_matrix toy_assembled = Some (to_img [0, 1, 0, 1])
   \<and> (\<exists>cs. calls (snd (generate_report_visualizations toy_externals toy_state))
              = [StyleUse ''default'', StyleUse ''preprocessing_profiling.mplstyle'',
                 MsnoMatrix modified_frame False] @ cs
            \<and> (\<forall>df p. MsnoMatrix df p \<in> set cs \<longrightarrow> p))"
proof -
  have m: "fst (missing_matrix toy_externals modified_frame False toy_state) = Inr (to_img [0, 1, 0, 1])"
    by (simp add: missing_matrix_def action_defs toy_defs)
  have f: "frames toy_state (dataframe_modified (report toy_state)) = modified_frame"
    "calls toy_state = []" "mplstyle toy_externals = ''preprocessing_profiling.mplstyle''"
    by (simp_all add: toy_state_def toy_report_def toy_externals_def)
  from global_matrix_without_annotation[OF toy_run_pair toy_well_formed]
  show ?thesis
    using toy_run_pair toy_well_formed m
    by (simp add: f toy_assembled_def)
qed

section \<open>The matrix of one error pair\<close>





section \<open>Every wrapper returns an image artifact\<close>

lemma plain_wrappers_to_img:
  "correlation_matrix ext corrdf title s = (Inr img, s') \<Longrightarrow> \<exists>d. img = to_img d"
  "missing_matrix ext df predictions s = (Inr img, s') \<Longrightarrow> \<exists>d. img = to_img d"
  "missing_bar ext df s = (Inr img, s') \<Longrightarrow> \<exists>d. img = to_img d"
  "missing_heat ext df s = (Inr img, s') \<Longrightarrow> \<exists>d. img = to_img d"
  "missing_dendrogram ext df s = (Inr img, s') \<Longrightarrow> \<exists>d. img = to_img d"
  "yellowbrick_to_img ext plot flag s = (Inr img, s') \<Longrightarrow> \<exists>d. img = to_img d"
  by (auto simp: correlation_matrix_def missing_matrix_def missing_bar_def missing_heat_def
      missing_dendrogram_def yellowbrick_to_img_def then_do_Inr succeed_Inr)

lemma histogram_wrappers_to_img:
  "histogram ext series s = (Inr img, s') \<Longrightarrow> \<exists>d. img = to_img d"
  "mini_histogram ext series s = (Inr img, s') \<Longrightarrow> \<exists>d. img = to_img d"
  by (auto simp: histogram_def mini_histogram_def then_do_Inr succeed_Inr)

text \<open>
  C8. Whatever a rendering wrapper returns is an image artifact: the header
  \<^verbatim>\<open>data:image/png;base64,\<close> followed by a payload of URL-safe characters that,
  with its percent escapes decoded, is a base64 text. The format named in the header is
  always \<^verbatim>\<open>png\<close>.
\<close>

theorem wrappers_return_image_artifacts:
  assumes "w \<in> {histogram ext series, mini_histogram ext series,
                correlation_matrix ext corrdf title, missing_matrix ext df predictions,
                missing_bar ext df, missing_heat ext df, missing_dendrogram ext df,
                yellowbrick_to_img ext plot flag}"
    and "w s = (Inr img, s')"
  shows "image_artifact img"
proof -
  from assms(1) have "w = histogram ext series \<or> w = mini_histogram ext series
      \<or> w = correlation_matrix ext corrdf title \<or> w = missing_matrix ext df predictions
      \<or> w = missing_bar ext df \<or> w = missing_heat ext df \<or> w = missing_dendrogram ext df
      \<or> w = yellowbrick_to_img ext plot flag"
    by simp
  then have "\<exists>d. img = to_img d"
    using assms(2)
    by (elim disjE) (auto dest: plain_wrappers_to_img histogram_wrappers_to_img)
  then show ?thesis
    using image_artifact_to_img by auto
qed

text \<open>
  The theorem at a curve whose picture is the byte 251: its base64 text is
  \<^verbatim>\<open>+w==\<close>, which the percent-encoding turns into \<^verbatim>\<open>%2Bw%3D%3D\<close>.
\<close>

theorem wrappers_witness:
  "yellowbrick_to_img toy_externals [251] False toy_state
     = (Inr ''data:image/png;base64,%2Bw%3D%3D'',
        snd (yellowbrick_to_img toy_externals [251] False toy_state))
   \<and> image_artifact ''data:image/png;base64,%2Bw%3D%3D''"
proof -
  let ?w = "yellowbrick_to_img toy_externals [251] False"
  have i: "to_img [251] = ''data:image/png;base64,%2Bw%3D%3D''"
    by (simp add: to_img_def quote_def quote_char_def always_safe_def b64_char_def
        b64_alphabet_def hex_digit_def)
  have "fst (?w toy_state) = Inr (to_img [251])"
    by (simp add: yellowbrick_to_img_def action_defs toy_externals_def)
  then have run: "?w toy_state = (Inr ''data:image/png;base64,%2Bw%3D%3D'', snd (?w toy_state))"
    unfolding i by (metis prod.collapse)
  have "?w \<in> {histogram toy_externals 0, mini_histogram toy_externals 0,
                correlation_matrix toy_externals 0 [], missing_matrix toy_externals test_frame True,
                missing_bar toy_externals test_frame, missing_heat toy_externals test_frame,
                missing_dendrogram toy_externals test_frame,
                yellowbrick_to_img toy_externals [251] False}"
    by simp
  from wrappers_return_image_artifacts[OF this run] run show ?thesis by simp
qed

section \<open>What every outcome keeps\<close>

lemma then_do_keeps:
  assumes "\<And>s. R s (snd (m s))" and "\<And>x s. R s (snd (f x s))"
    and "\<And>a b c. R a b \<Longrightarrow> R b c \<Longrightarrow> R a c"
  shows "R s (snd (then_do m f s))"
proof (cases "m s")
  case (Pair res s1)
  then have 1: "R s s1" using assms(1)[of s] by simp
  show ?thesis
  proof (cases res)
    case (Inl e)
    then show ?thesis using Pair 1 by (simp add: then_do_def)
  next
    case (Inr x)
    then have "then_do m f s = f x s1" using Pair by (simp add: then_do_def)
    then show ?thesis using 1 assms(2)[of s1 x] assms(3) by metis
  qed
qed

lemma for_each_keeps:
  assumes "\<And>x s. R s (snd (body x s))" and "\<And>s. R s s"
    and "\<And>a b c. R a b \<Longrightarrow> R b c \<Longrightarrow> R a c"
  shows "R s (snd (for_each xs body s))"
proof (induction xs arbitrary: s)
  case Nil
  then show ?case using assms(2) by simp
next
  case (Cons x xs)
  show ?case
  proof (cases "body x s")
    case (Pair res s1)
    then have 1: "R s s1" using assms(1)[of s x] by simp
    show ?thesis
    proof (cases res)
      case (Inl e)
      then show ?thesis using Pair 1 by simp
    next
      case (Inr u)
      then have "for_each (x # xs) body s = for_each xs body s1" using Pair by simp
      then show ?thesis using 1 Cons.IH[of s1] assms(3) by metis
    qed
  qed
qed

lemma same_store_trans: "same_store a b \<Longrightarrow> same_store b c \<Longrightarrow> same_store a c"
  by (simp add: same_store_def)

lemma same_store_steps:
  "same_store s (snd (external c r s))"
  "same_store s (snd (succeed x s))"
  "same_store s (snd (lift r' s))"
  "same_store s (snd (get_report s))"
  "same_store s (snd (read_frame a s))"
  "same_store s (snd (get_block t s))"
  "same_store s (snd (set_in_block t f s))"
  "same_store s (snd (append_matrix t m s))"
  "same_store s (snd (pop_split t s))"
  by (auto simp: same_store_def external_def succeed_def lift_def get_report_def read_frame_def
      get_block_def set_in_block_def append_matrix_def pop_split_def
      split: sum.splits option.splits)

lemma missing_matrix_same_store: "same_store s (snd (missing_matrix ext df p s))"
  unfolding missing_matrix_def
  by (intro then_do_keeps[where R = same_store] same_store_steps) (auto intro: same_store_trans same_store_steps)

lemma pair_matrix_same_store: "same_store s (snd (pair_matrix ext t a pair s))"
  unfolding pair_matrix_def
  by (intro then_do_keeps[where R = same_store] same_store_steps missing_matrix_same_store)
     (auto intro: same_store_trans)

lemma prediction_matrixes_for_same_store:
  "same_store s (snd (prediction_matrixes_for ext t a s))"
  unfolding prediction_matrixes_for_def
  by (intro then_do_keeps[where R = same_store] for_each_keeps[where R = same_store]
      same_store_steps missing_matrix_same_store pair_matrix_same_store)
     (auto intro: same_store_trans simp: same_store_def)

lemma yellowbrick_same_store: "same_store s (snd (yellowbrick_to_img ext plot flag s))"
  unfolding yellowbrick_to_img_def
  by (intro then_do_keeps[where R = same_store] same_store_steps)
     (auto intro: same_store_trans same_store_steps)

lemma precision_recall_for_same_store: "same_store s (snd (precision_recall_for ext t s))"
  unfolding precision_recall_for_def
  by (intro then_do_keeps[where R = same_store] same_store_steps yellowbrick_same_store)
     (auto intro: same_store_trans)

lemma same_store_kept: "same_store s s' \<Longrightarrow> store_kept s s'"
  by (simp add: same_store_def store_kept_def)

lemma strategy_frame_kept: "store_kept s (snd (strategy_frame k s))"
  by (auto simp: strategy_frame_def then_do_def get_report_def copy_frame_def get_block_def
      read_frame_def lift_def setitem_column_at_def succeed_def store_kept_def
      split: sum.splits prod.splits)

lemma try_pass_kept: "store_kept s (snd (try_pass (external c r) s))"
  by (simp add: try_pass_def external_def store_kept_def)

lemma store_kept_steps:
  "store_kept s (snd (external c r s))"
  "store_kept s (snd (get_report s))"
  "store_kept s (snd (read_frame a s))"
  "store_kept s (snd (missing_matrix ext df p s))"
  "store_kept s (snd (prediction_matrixes_for ext t a s))"
  "store_kept s (snd (precision_recall_for ext t s))"
  by (intro same_store_kept same_store_steps missing_matrix_same_store
      prediction_matrixes_for_same_store precision_recall_for_same_store)+

lemma strategy_step_kept:
  "store_kept s (snd (then_do (strategy_frame k)
                        (\<lambda>a. prediction_matrixes_for ext (Strategy k) a) s))"
  by (intro then_do_keeps[where R = store_kept] strategy_frame_kept store_kept_steps)
     (erule store_kept_trans, assumption)

lemma matrix_phase_kept: "store_kept s (snd (matrix_phase ext s))"
  unfolding matrix_phase_def
  by (intro then_do_keeps[where R = store_kept] for_each_keeps[where R = store_kept]
      store_kept_steps try_pass_kept strategy_step_kept)
     ((erule store_kept_trans, assumption) | simp add: store_kept_def)+

lemma curve_phase_kept: "store_kept s (snd (curve_phase ext s))"
  unfolding curve_phase_def
  by (intro then_do_keeps[where R = store_kept] for_each_keeps[where R = store_kept]
      store_kept_steps)
     ((erule store_kept_trans, assumption) | simp add: store_kept_def)+

section \<open>The datasets are never mutated\<close>

text \<open>
  C9. Extracting the error pairs of a frame and building its matrixes (lines 279 to 284
  and 288 to 293) leave the store of frames as it is, whatever the outcome; the error
  pairs themselves are a function of the frame (\<open>combinations\<close>). The whole pipeline,
  whatever its outcome, leaves every frame that existed before it unchanged: the only
  frame it writes to is the copy it makes for a strategy.
\<close>

theorem datasets_never_mutated:
  "same_store s (snd (prediction_matrixes_for ext t a s))
   \<and> store_kept s (snd (generate_report_visualizations ext s))"
proof -
  have "store_kept s (snd (generate_report_visualizations ext s))"
    unfolding generate_report_visualizations_def
    by (intro then_do_keeps[where R = store_kept] matrix_phase_kept curve_phase_kept
        store_kept_steps)
       ((erule store_kept_trans, assumption) | simp add: store_kept_def)+
  then show ?thesis
    using prediction_matrixes_for_same_store by blast
qed

text \<open>
  The theorem at the small report: the test frame and the result of the baseline are what
  they were, and the frame with the column \<^verbatim>\<open>pred\<close> is a new one, at address 4.
\<close>

theorem datasets_witness:
  "frames (snd (generate_report_visualizations toy_externals toy_state)) 1 = test_frame
   \<and> frames (snd (generate_report_visualizations toy_externals toy_state)) 2 = example_frame
   \<and> frames (snd (generate_report_visualizations toy_externals toy_state)) 3 = imputed_frame
   \<and> frames (snd (prediction_matrixes_for toy_externals Baseline 2 toy_state)) 2 = example_frame
   \<and> next_frame (snd (generate_report_visualizations toy_externals toy_state)) = 5
   \<and> frames (snd (generate_report_visualizations toy_externals toy_state)) 4
       = \<lparr>columns = [''age'', ''label'', ''pred''],
          rows = [(0, [None, Some 0, Some 0]), (1, [Some 40, Some 1, Some 1])]\<rparr>"
proof -
  let ?s' = "snd (generate_report_visualizations toy_externals toy_state)"
  have n: "next_frame toy_state = 4"
    and f: "frames toy_state (Suc 0) = test_frame" "frames toy_state 2 = example_frame"
      "frames toy_state 3 = imputed_frame"
    by (simp_all add: toy_state_def)
  from datasets_never_mutated[of toy_state toy_externals Baseline 2]
  have k: "frames ?s' 1 = test_frame" "frames ?s' 2 = example_frame" "frames ?s' 3 = imputed_frame"
    "frames (snd (prediction_matrixes_for toy_externals Baseline 2 toy_state)) 2 = example_frame"
    by (simp_all add: store_kept_def same_store_def n f)
  have e: "next_frame ?s' = 5"
    "frames ?s' 4 = \<lparr>columns = [''age'', ''label'', ''pred''],
          rows = [(0, [None, Some 0, Some 0]), (1, [Some 40, Some 1, Some 1])]\<rparr>"
    by (simp_all add: pipeline_defs action_defs pandas_defs toy_defs)
  show ?thesis using k e by simp
qed

section \<open>The style reset\<close>





section \<open>A report without a split\<close>

lemma unsplit_run:
  "fst (generate_report_visualizations toy_externals unsplit_state) = Inl (KeyError ''split'')"
  by (simp add: pipeline_defs action_defs pandas_defs toy_defs unsplit_state_def)

text \<open>
  C4, as the code has it. A report in which the baseline or a strategy has no
  \<open>split\<close> is never returned: the call raises. The error is not immediate. When it is
  the baseline that has no split and the first part of the pipeline (lines 267 to 293)
  succeeds, the call raises \<^verbatim>\<open>KeyError('split')\<close> from the state that part leaves:
  the matrix of the whole report and the matrixes of the blocks have been computed and
  stored in the report before the error.
\<close>

theorem missing_split_raises:
  assumes "well_formed s" and "lookup_block t (report s) = Inr b" and "split b = None"
  shows "(\<forall>r. fst (generate_report_visualizations ext s) \<noteq> Inr r)
     \<and> (\<forall>s1. t = Baseline \<and> matrix_phase ext s = (Inr (), s1) \<longrightarrow>
           generate_report_visualizations ext s = (Inl (KeyError ''split''), s1)
           \<and> report_missing_matrix (report s1) \<noteq> None
           \<and> prediction_matrixes (baseline (report s1)) \<noteq> None)"
proof -
  have A: "fst (generate_report_visualizations ext s) \<noteq> Inr r" for r
  proof
    assume "fst (generate_report_visualizations ext s) = Inr r"
    then have "generate_report_visualizations ext s
                 = (Inr r, snd (generate_report_visualizations ext s))"
      by (metis prod.collapse)
    from generate_Inr(5)[OF this assms(1,2), of s] show False
      using assms(3) by auto
  qed
  have B: "generate_report_visualizations ext s = (Inl (KeyError ''split''), s1)
           \<and> report_missing_matrix (report s1) \<noteq> None
           \<and> prediction_matrixes (baseline (report s1)) \<noteq> None"
    if t: "t = Baseline" and m: "matrix_phase ext s = (Inr (), s1)" for s1
  proof -
    note M = matrix_phase_Inr[OF m assms(1)]
    from M(6)[where ?s0.0 = s, OF assms(2)] obtain ms where
      l: "lookup_block Baseline (report s1) = Inr (b\<lparr>prediction_matrixes := Some ms\<rparr>)"
      using t by auto
    then have b1: "baseline (report s1) = b\<lparr>prediction_matrixes := Some ms\<rparr>"
      by (simp add: lookup_block_def)
    have "pop_split Baseline s1 = (Inl (KeyError ''split''), s1)"
      using l assms(3) by (simp add: pop_split_def)
    then have "precision_recall_for ext Baseline s1 = (Inl (KeyError ''split''), s1)"
      by (simp add: precision_recall_for_def then_do_raise)
    then have "curve_phase ext s1 = (Inl (KeyError ''split''), s1)"
      by (simp add: curve_phase_def then_do_raise)
    then have "generate_report_visualizations ext s = (Inl (KeyError ''split''), s1)"
      using m by (simp add: generate_report_visualizations_def then_do_step then_do_raise)
    moreover have "report_missing_matrix (report s1) \<noteq> None"
      using M(5)[where ?s0.0 = s] by auto
    ultimately show ?thesis using b1 by simp
  qed
  show ?thesis using A B by blast
qed

text \<open>The theorem at the small report without the split of its baseline.\<close>

theorem missing_split_witness:
  "well_formed unsplit_state
   \<and> lookup_block Baseline (report unsplit_state)
       = Inr \<lparr>result = 2, split = None, prediction_matrixes = None, precision_recall_curve = None\<rparr>
   \<and> matrix_phase toy_externals unsplit_state
       = (Inr (), snd (matrix_phase toy_externals unsplit_state))
   \<and> generate_report_visualizations toy_externals unsplit_state
       = (Inl (KeyError ''split''), snd (matrix_phase toy_externals unsplit_state))
   \<and> report_missing_matrix (report (snd (matrix_phase toy_externals unsplit_state))) \<noteq> None
   \<and> prediction_matrixes (baseline (report (snd (matrix_phase toy_externals unsplit_state)))) \<noteq> None"
proof -
  have w: "well_formed unsplit_state"
    by (simp add: well_formed_def valid_refs_def unsplit_state_def toy_state_def toy_report_def)
  have l: "lookup_block Baseline (report unsplit_state)
       = Inr \<lparr>result = 2, split = None, prediction_matrixes = None, precision_recall_curve = None\<rparr>"
    by (simp add: lookup_block_def unsplit_state_def toy_state_def toy_report_def)
  have "fst (matrix_phase toy_externals unsplit_state) = Inr ()"
    by (simp add: pipeline_defs action_defs pandas_defs toy_defs unsplit_state_def)
  then have m: "matrix_phase toy_externals unsplit_state
       = (Inr (), snd (matrix_phase toy_externals unsplit_state))"
    by (metis prod.collapse)
  from missing_split_raises[OF w l, of toy_externals] m
  show ?thesis using w l by simp
qed

lemma unsplit_left:
  "report (snd (generate_report_visualizations toy_externals unsplit_state))
     = \<lparr>dataframe_modified = 0,
        dataframe_test = 1,
        baseline =
          \<lparr>result = 2, split = None,
           prediction_matrixes =
             Some [\<lparr>m_name = ''Original Dataset'', m_image = to_img [1, 0, 1, 0, 1]\<rparr>,
                   \<lparr>m_name = ''0'' @ arrow @ ''1'', m_image = to_img [1, 1, 1, 0, 0]\<rparr>,
                   \<lparr>m_name = ''1'' @ arrow @ ''0'', m_image = to_img [1, 0, 0, 1, 1]\<rparr>],
           precision_recall_curve = None\<rparr>,
        strategy_classifications =
          [(''mean'',
            \<lparr>result = 3, split = Some toy_split,
             prediction_matrixes =
               Some [\<lparr>m_name = ''Original Dataset'', m_image = to_img [1, 1, 0]\<rparr>],
             precision_recall_curve = None\<rparr>)],
        report_missing_matrix = Some (to_img [0, 1, 0, 1])\<rparr>"
  by (simp add: pipeline_defs action_defs pandas_defs toy_defs unsplit_state_def)

lemma assembled_again:
  "fst (generate_report_visualizations toy_externals assembled_state) = Inl (KeyError ''split'')"
  "calls (snd (generate_report_visualizations toy_externals assembled_state))
     = [StyleUse ''default'', StyleUse ''preprocessing_profiling.mplstyle'',
        MsnoMatrix modified_frame False, Savefig, CloseFigure,
        MsnoMatrix example_frame True, Savefig, CloseFigure,
        MsnoMatrix \<lparr>columns = [''age'', ''label'', ''pred''],
                    rows = [(1, [None, Some 0, Some 1]), (3, [None, Some 0, Some 1]),
                            (0, [Some 31, Some 0, Some 0]), (2, [Some 47, Some 1, Some 0])]\<rparr> True,
        Savefig, CloseFigure,
        MsnoMatrix \<lparr>columns = [''age'', ''label'', ''pred''],
                    rows = [(2, [Some 47, Some 1, Some 0]), (0, [Some 31, Some 0, Some 0]),
                            (1, [None, Some 0, Some 1]), (3, [None, Some 0, Some 1])]\<rparr> True,
        Savefig, CloseFigure,
        MsnoMatrix \<lparr>columns = [''age'', ''label'', ''pred''],
                    rows = [(0, [None, Some 0, Some 0]), (1, [Some 40, Some 1, Some 1])]\<rparr> True,
        Savefig, CloseFigure]"
  by (simp_all add: pipeline_defs action_defs pandas_defs toy_defs assembled_state_def
      toy_assembled_def)

text \<open>
  C4 as stated fails. The small report without the split of its baseline is malformed;
  the call raises \<^verbatim>\<open>KeyError('split')\<close>, but the report it leaves has a matrix of the
  whole report and three matrixes for the baseline where the report it was given had
  none. Called again on the report it has assembled, the pipeline raises the same error
  only after it has asked the libraries for every matrix once more.
\<close>

theorem missing_split_counterexample:
  "fst (generate_report_visualizations toy_externals unsplit_state) = Inl (KeyError ''split'')
   \<and> report_missing_matrix (report unsplit_state) = None
   \<and> report_missing_matrix (report (snd (generate_report_visualizations toy_externals unsplit_state)))
       = Some (to_img [0, 1, 0, 1])
   \<and> prediction_matrixes (baseline (report unsplit_state)) = None
   \<and> map m_name (the (prediction_matrixes (baseline (report
         (snd (generate_report_visualizations toy_externals unsplit_state))))))
       = [''Original Dataset'', ''0'' @ arrow @ ''1'', ''1'' @ arrow @ ''0'']
   \<and> fst (generate_report_visualizations toy_externals toy_state) = Inr (report assembled_state)
   \<and> fst (generate_report_visualizations toy_externals assembled_state) = Inl (KeyError ''split'')
   \<and> calls assembled_state = []
   \<and> length (calls (snd (generate_report_visualizations toy_externals assembled_state))) = 17
   \<and> MsnoMatrix example_frame True
       \<in> set (calls (snd (generate_report_visualizations toy_externals assembled_state)))"
proof -
  have "report_missing_matrix (report unsplit_state) = None"
    "prediction_matrixes (baseline (report unsplit_state)) = None"
    "report assembled_state = toy_assembled" "calls assembled_state = []"
    by (simp_all add: unsplit_state_def assembled_state_def toy_state_def toy_report_def)
  then show ?thesis
    using unsplit_run toy_run by (simp add: unsplit_left assembled_again)
qed

section \<open>The figure of a curve\<close>

lemma curve_surface_open_append:
  "curve_surface_open opened (xs @ ys) = curve_surface_open (curve_surface_open opened xs) ys"
  by (induction xs arbitrary: opened) auto

lemma curve_calls_close: "curve_surface_open opened curve_calls = False"
  by (simp add: curve_calls_def)

lemma curves_close:
  "curve_surface_open opened (concat (replicate (Suc n) curve_calls)) = False"
  by (induction n arbitrary: opened) (simp_all add: curve_surface_open_append curve_calls_close)

lemma precision_recall_for_raises:
  assumes "precision_recall_for ext t s = (Inl e, s1)" and "plt_close ext = Inr ()"
  shows "\<exists>cs. calls s1 = calls s @ cs \<and> PltClose \<notin> set cs"
  using assms
  by (auto simp: precision_recall_for_def yellowbrick_to_img_def then_do_def pop_split_def
      external_def succeed_def set_in_block_def
      split: sum.splits option.splits prod.splits if_splits)

text \<open>
  C6, as the code has it. When the pipeline returns, no figure of a curve is open:
  after the curve of every block is scored and saved, \<^verbatim>\<open>plt.close()\<close> is called. The
  call is not scoped: when a step for a block raises (and \<^verbatim>\<open>plt.close()\<close> itself does
  not), the exception goes to the caller and \<^verbatim>\<open>plt.close()\<close> is not called in that step.
\<close>

theorem curve_surface_released_on_success:
  "(generate_report_visualizations ext s = (Inr r, s') \<and> well_formed s
      \<longrightarrow> \<not> curve_surface_open opened (calls s'))
   \<and> (precision_recall_for ext t s = (Inl e, s1) \<and> plt_close ext = Inr ()
      \<longrightarrow> (\<exists>cs. calls s1 = calls s @ cs \<and> PltClose \<notin> set cs))"
proof -
  have "\<not> curve_surface_open opened (calls s')"
    if run: "generate_report_visualizations ext s = (Inr r, s')" and wf: "well_formed s"
  proof -
    from generate_Inr(6)[OF run wf] obtain cs where
      "calls s' = (calls s @ [StyleUse ''default'', StyleUse (mplstyle ext),
               MsnoMatrix (frames s (dataframe_modified (report s))) False, Savefig, CloseFigure]
               @ cs) @ concat (replicate (Suc (length (strategy_classifications (report s)))) curve_calls)"
      by auto
    then show ?thesis
      by (simp only: curve_surface_open_append curves_close) simp
  qed
  then show ?thesis
    using precision_recall_for_raises by blast
qed

lemma failing_poof_run:
  "fst (generate_report_visualizations failing_poof toy_state) = Inl (LibraryError ''savefig'')"
  "calls (snd (generate_report_visualizations failing_poof toy_state))
     = [StyleUse ''default'', StyleUse ''preprocessing_profiling.mplstyle'',
        MsnoMatrix modified_frame False, Savefig, CloseFigure,
        MsnoMatrix example_frame True, Savefig, CloseFigure,
        MsnoMatrix \<lparr>columns = [''age'', ''label'', ''pred''],
                    rows = [(1, [None, Some 0, Some 1]), (3, [None, Some 0, Some 1]),
                            (0, [Some 31, Some 0, Some 0]), (2, [Some 47, Some 1, Some 0])]\<rparr> True,
        Savefig, CloseFigure,
        MsnoMatrix \<lparr>columns = [''age'', ''label'', ''pred''],
                    rows = [(2, [Some 47, Some 1, Some 0]), (0, [Some 31, Some 0, Some 0]),
                            (1, [None, Some 0, Some 1]), (3, [None, Some 0, Some 1])]\<rparr> True,
        Savefig, CloseFigure,
        MsnoMatrix \<lparr>columns = [''age'', ''label'', ''pred''],
                    rows = [(0, [None, Some 0, Some 0]), (1, [Some 40, Some 1, Some 1])]\<rparr> True,
        Savefig, CloseFigure,
        NewPrecisionRecallCurve, Fit, Score, Poof]"
  by (simp_all add: pipeline_defs action_defs pandas_defs toy_defs failing_poof_def)

text \<open>
  C6 as stated fails. With libraries that cannot save a curve, the pipeline scores the
  curve of the baseline, the saving raises, and the pipeline ends there with the
  exception: there is no call of \<^verbatim>\<open>plt.close()\<close>, and the figure is left open.
\<close>

theorem curve_surface_counterexample:
  "fst (generate_report_visualizations failing_poof toy_state) = Inl (LibraryError ''savefig'')
   \<and> drop 17 (calls (snd (generate_report_visualizations failing_poof toy_state)))
       = [NewPrecisionRecallCurve, Fit, Score, Poof]
   \<and> PltClose \<notin> set (calls (snd (generate_report_visualizations failing_poof toy_state)))
   \<and> curve_surface_open False (calls (snd (generate_report_visualizations failing_poof toy_state)))"
  by (simp add: failing_poof_run)

text \<open>The theorem at the small report, and at its baseline with libraries that cannot save a curve.\<close>

theorem curve_surface_witness:
  "generate_report_visualizations toy_externals toy_state
     = (Inr toy_assembled, snd (generate_report_visualizations toy_externals toy_state))
   \<and> well_formed toy_state
   \<and> \<not> curve_surface_open False (calls (snd (generate_report_visualizations toy_externals toy_state)))
   \<and> precision_recall_for failing_poof Baseline toy_state
       = (Inl (LibraryError ''savefig''), snd (precision_recall_for failing_poof Baseline toy_state))
   \<and> plt_close failing_poof = Inr ()
   \<and> calls toy_state = []
   \<and> PltClose \<notin> set (calls (snd (precision_recall_for failing_poof Baseline toy_state)))"
proof -
  let ?p = "precision_recall_for failing_poof Baseline toy_state"
  have "fst ?p = Inl (LibraryError ''savefig'')"
    by (simp add: precision_recall_for_def yellowbrick_to_img_def action_defs toy_defs
        failing_poof_def)
  then have p: "?p = (Inl (LibraryError ''savefig''), snd ?p)" by (metis prod.collapse)
  have c: "plt_close failing_poof = Inr ()" "calls toy_state = []"
    by (simp_all add: failing_poof_def toy_externals_def toy_state_def)
  from curve_surface_released_on_success[where ext = toy_externals and s = toy_state
      and r = toy_assembled and opened = False
      and s' = "snd (generate_report_visualizations toy_externals toy_state)"]
    curve_surface_released_on_success[where ext = failing_poof and s = toy_state
      and t = Baseline and e = "LibraryError ''savefig''" and ?s1.0 = "snd ?p"]
  show ?thesis
    using toy_run_pair toy_well_formed p c by auto
qed

end
